theory Spec2Isabelle
  imports Complex_Main "HOL-Library.Sublist"
begin

section \<open>Data model of port_model.py\<close>

text \<open>
  Numbers: the configuration's counts (berths, cranes, rail tracks) are Python ints and are
  modelled as \<open>int\<close>; tonnages, speeds, times and percentages are Python floats and are
  modelled as \<open>real\<close> (rounding is not modelled). Python lists grow by \<open>append\<close> at the
  end, so \<open>xs.append(x)\<close> is \<open>xs @ [x]\<close>. The Russian string constants of the source are
  transliterated.
\<close>

datatype cargo_type = Grain | Oil | General

datatype error = ValueError | ZeroDivisionError

record config =
  oil_berths :: int
  dry_berths :: int
  cranes :: int
  grain_speed :: real
  oil_speed :: real
  general_speed :: real
  grain_storage_capacity :: real
  general_storage_capacity :: real
  oil_storage_capacity :: real
  trains_per_day :: real
  train_capacity :: real
  railway_capacity :: int
  ships_per_year :: real
  cargo_distribution :: "cargo_type \<Rightarrow> real"

subsection \<open>PortMetrics (lines 34-63)\<close>

text \<open>
  The dictionaries \<open>{'time': t, 'queue': q}\<close> and \<open>{'time': t, 'usage': u}\<close> are pairs
  \<open>(t, q)\<close> and \<open>(t, u)\<close>.
\<close>

record port_metrics =
  ships_processed :: nat
  ships_in_queue :: "(real \<times> nat) list"
  berth_usage :: "(real \<times> nat) list"
  crane_usage :: "(real \<times> nat) list"
  storage_usage :: "(real \<times> real) list"
  ship_waiting_times :: "real list"
  ship_processing_times :: "real list"
  cargo_processed :: "real list"
  bottlenecks :: "string list"

definition PortMetrics_init :: port_metrics where
  "PortMetrics_init =
     \<lparr>ships_processed = 0, ships_in_queue = [], berth_usage = [], crane_usage = [],
      storage_usage = [], ship_waiting_times = [], ship_processing_times = [],
      cargo_processed = [], bottlenecks = []\<rparr>"

definition record_ship_arrival :: "port_metrics \<Rightarrow> real \<Rightarrow> nat \<Rightarrow> port_metrics" where
  "record_ship_arrival m time queue_length =
     m\<lparr>ships_in_queue := ships_in_queue m @ [(time, queue_length)]\<rparr>"

definition record_ship_processing ::
  "port_metrics \<Rightarrow> real \<Rightarrow> real \<Rightarrow> real \<Rightarrow> port_metrics" where
  "record_ship_processing m waiting_time processing_time cargo_amount =
     m\<lparr>ships_processed := ships_processed m + 1,
       ship_waiting_times := ship_waiting_times m @ [waiting_time],
       ship_processing_times := ship_processing_times m @ [processing_time],
       cargo_processed := cargo_processed m @ [cargo_amount]\<rparr>"

definition record_resource_usage ::
  "port_metrics \<Rightarrow> real \<Rightarrow> nat \<Rightarrow> nat \<Rightarrow> real \<Rightarrow> real \<Rightarrow> port_metrics" where
  "record_resource_usage m time berths_busy cranes_busy storage_used storage_capacity =
     (let storage_pct = (if storage_capacity > 0
                         then storage_used / storage_capacity * 100 else 0)
      in m\<lparr>berth_usage := berth_usage m @ [(time, berths_busy)],
           crane_usage := crane_usage m @ [(time, cranes_busy)],
           storage_usage := storage_usage m @ [(time, storage_pct)]\<rparr>)"

text \<open>The three public operations of the class, as data, and a sequence of calls.\<close>

datatype metrics_op =
    RecordShipArrival real nat
  | RecordShipProcessing real real real
  | RecordResourceUsage real nat nat real real

fun metrics_apply :: "port_metrics \<Rightarrow> metrics_op \<Rightarrow> port_metrics" where
  "metrics_apply m (RecordShipArrival t q) = record_ship_arrival m t q"
| "metrics_apply m (RecordShipProcessing w p c) = record_ship_processing m w p c"
| "metrics_apply m (RecordResourceUsage t b c su sc) = record_resource_usage m t b c su sc"

definition metrics_run :: "metrics_op list \<Rightarrow> port_metrics" where
  "metrics_run ops = foldl metrics_apply PortMetrics_init ops"

definition metrics_consistent :: "port_metrics \<Rightarrow> bool" where
  "metrics_consistent m \<longleftrightarrow>
     length (ship_waiting_times m) = ships_processed m \<and>
     length (ship_processing_times m) = ships_processed m \<and>
     length (cargo_processed m) = ships_processed m"

definition metrics_extends :: "port_metrics \<Rightarrow> port_metrics \<Rightarrow> bool" where
  "metrics_extends m m' \<longleftrightarrow>
     prefix (ships_in_queue m) (ships_in_queue m') \<and>
     prefix (berth_usage m) (berth_usage m') \<and>
     prefix (crane_usage m) (crane_usage m') \<and>
     prefix (storage_usage m) (storage_usage m') \<and>
     prefix (ship_waiting_times m) (ship_waiting_times m') \<and>
     prefix (ship_processing_times m) (ship_processing_times m') \<and>
     prefix (cargo_processed m) (cargo_processed m') \<and>
     ships_processed m \<le> ships_processed m'"

subsection \<open>calculate_capacity_metrics (lines 261-358)\<close>

text \<open>
  The keys of the \<open>capacities\<close> dictionary, in insertion order: 'Prichaly' (berths),
  'Krany' (cranes), 'Sklady' (storage), 'ZhD' (rail). A Python dict iterates in insertion
  order, so the dictionary is an association list.
\<close>

datatype element = Prichaly | Krany | Sklady | ZhD

text \<open>
  \<open>system_status\<close>: "Na predele" (at the limit), "Umerennaya nagruzka" (moderate load),
  "Est' znachitel'nyi rezerv" (there is a significant reserve).
\<close>

datatype status = Na_predele | Umerennaya_nagruzka | Est_znachitelnyi_rezerv

text \<open>The three formatted messages of \<open>critical_issues\<close>, with the value each one prints.\<close>

datatype critical_issue =
    Kriticheskaya_ochered nat
  | Kriticheskii_prostoi real
  | Kriticheskoe_zapolnenie real

record capacity_report =
  annual_cargo_tons :: real
  report_ships_processed :: nat
  avg_wait_time_hours :: real
  avg_processing_time_hours :: real
  berth_utilization_pct :: real
  crane_utilization_pct :: real
  storage_utilization_pct :: real
  avg_queue_length :: real
  max_queue_length :: nat
  theoretical_max_capacity_tons :: real
  capacity_utilization_pct :: real
  reserve_capacity_tons :: real
  bottleneck :: element
  capacities :: "(element \<times> real) list"
  critical_issues :: "critical_issue list"
  system_status :: status
  status_color :: string

text \<open>\<open>np.mean\<close> of a non-empty list; every call of the source is guarded by non-emptiness.\<close>

definition np_mean :: "real list \<Rightarrow> real" where
  "np_mean xs = sum_list xs / real (length xs)"

text \<open>
  Python's \<open>min(iterable)\<close> and \<open>min(iterable, key=f)\<close>: the first element is the
  candidate, and a later element replaces it only when it is strictly smaller, so the first
  of several minimal elements is returned. \<open>max\<close> is symmetric.
\<close>

fun py_min_from :: "('a \<Rightarrow> real) \<Rightarrow> 'a \<Rightarrow> 'a list \<Rightarrow> 'a" where
  "py_min_from key best [] = best"
| "py_min_from key best (x # xs) =
     py_min_from key (if key x < key best then x else best) xs"

fun py_max_from :: "nat \<Rightarrow> nat list \<Rightarrow> nat" where
  "py_max_from best [] = best"
| "py_max_from best (x # xs) = py_max_from (if best < x then x else best) xs"

text \<open>
  \<open>capacities.get\<close>, used as the key function of \<open>min\<close> over the dictionary's own keys, so
  the lookup always finds the key (the \<open>None\<close> branch is never taken there).
\<close>

definition dict_get :: "(element \<times> real) list \<Rightarrow> element \<Rightarrow> real" where
  "dict_get d k = (case map_of d k of Some v \<Rightarrow> v | None \<Rightarrow> 0)"

text \<open>
  Lines 330-338. The three branches set \<open>system_status\<close> and \<open>status_color\<close> together.
\<close>

definition classify :: "real \<Rightarrow> status \<times> string" where
  "classify capacity_utilization =
     (if capacity_utilization > 80 then (Na_predele, ''red'')
      else if capacity_utilization > 60 then (Umerennaya_nagruzka, ''orange'')
      else (Est_znachitelnyi_rezerv, ''green''))"

text \<open>
  The \<open>port\<close> argument is not read by the function. The only operation that can raise is
  \<open>8760 / simulation_hours\<close> (line 264); every other division is guarded or has a divisor
  that is positive by construction (\<open>avg_ship_time\<close>).
\<close>

definition calculate_capacity_metrics ::
  "port_metrics \<Rightarrow> 'port \<Rightarrow> config \<Rightarrow> real \<Rightarrow> error + capacity_report" where
  "calculate_capacity_metrics metrics port cfg simulation_hours =
    (if simulation_hours = 0 then Inl ZeroDivisionError else
     let total_cargo = sum_list (cargo_processed metrics);
         annual_cargo = total_cargo * (8760 / simulation_hours);
         avg_wait_time = (if ship_waiting_times metrics \<noteq> []
                          then np_mean (ship_waiting_times metrics) else 0);
         avg_processing_time = (if ship_processing_times metrics \<noteq> []
                                then np_mean (ship_processing_times metrics) else 0);
         avg_berth_usage = (if berth_usage metrics \<noteq> []
                            then np_mean (map (real \<circ> snd) (berth_usage metrics)) else 0);
         total_berths = oil_berths cfg + dry_berths cfg;
         berth_utilization = (if total_berths > 0
                              then avg_berth_usage / real_of_int total_berths * 100 else 0);
         avg_crane_usage = (if crane_usage metrics \<noteq> []
                            then np_mean (map (real \<circ> snd) (crane_usage metrics)) else 0);
         crane_utilization = (if cranes cfg > 0
                              then avg_crane_usage / real_of_int (cranes cfg) * 100 else 0);
         avg_storage_usage = (if storage_usage metrics \<noteq> []
                              then np_mean (map snd (storage_usage metrics)) else 0);
         avg_queue = (if ships_in_queue metrics \<noteq> []
                      then np_mean (map (real \<circ> snd) (ships_in_queue metrics)) else 0);
         max_queue = (case map snd (ships_in_queue metrics) of
                        [] \<Rightarrow> 0 | q # qs \<Rightarrow> py_max_from q qs);
         avg_ship_time = (if avg_processing_time > 0 then avg_processing_time else 24);
         ships_per_year_capacity = real_of_int total_berths * 8760 / avg_ship_time;
         avg_cargo_per_ship = (if ships_processed metrics > 0
                               then total_cargo / real (ships_processed metrics) else 5000);
         berth_capacity_annual = ships_per_year_capacity * avg_cargo_per_ship;
         crane_capacity_annual =
           real_of_int (cranes cfg) * general_speed cfg * 8760 * (7 / 10);
         total_storage_capacity = grain_storage_capacity cfg +
                                  general_storage_capacity cfg +
                                  oil_storage_capacity cfg;
         storage_capacity_annual = total_storage_capacity * 24;
         railway_capacity_annual = trains_per_day cfg * train_capacity cfg * 365;
         caps = [(Prichaly, berth_capacity_annual),
                 (Krany, crane_capacity_annual),
                 (Sklady, storage_capacity_annual),
                 (ZhD, railway_capacity_annual)];
         theoretical_max_capacity =
           (case map snd caps of v # vs \<Rightarrow> py_min_from id v vs | [] \<Rightarrow> 0);
         bottleneck_key =
           (case map fst caps of k # ks \<Rightarrow> py_min_from (dict_get caps) k ks
                               | [] \<Rightarrow> Prichaly);
         capacity_utilization = (if theoretical_max_capacity > 0
                                 then annual_cargo / theoretical_max_capacity * 100 else 0);
         reserve_capacity = max 0 (theoretical_max_capacity - annual_cargo);
         issues = (if max_queue > 5 then [Kriticheskaya_ochered max_queue] else []) @
                  (if avg_wait_time > 72 then [Kriticheskii_prostoi avg_wait_time] else []) @
                  (if avg_storage_usage > 95
                   then [Kriticheskoe_zapolnenie avg_storage_usage] else [])
     in Inr \<lparr>annual_cargo_tons = annual_cargo,
             report_ships_processed = ships_processed metrics,
             avg_wait_time_hours = avg_wait_time,
             avg_processing_time_hours = avg_processing_time,
             berth_utilization_pct = berth_utilization,
             crane_utilization_pct = crane_utilization,
             storage_utilization_pct = avg_storage_usage,
             avg_queue_length = avg_queue,
             max_queue_length = max_queue,
             theoretical_max_capacity_tons = theoretical_max_capacity,
             capacity_utilization_pct = capacity_utilization,
             reserve_capacity_tons = reserve_capacity,
             bottleneck = bottleneck_key,
             capacities = caps,
             critical_issues = issues,
             system_status = fst (classify capacity_utilization),
             status_color = snd (classify capacity_utilization)\<rparr>)"

section \<open>The simulation: SimPy primitives, the port and its processes\<close>

text \<open>
  SimPy itself is a library and not part of the repository. Its primitives are modelled as
  far as the source uses them, after the library's documented behaviour:
  \<^item> \<open>Resource(env, capacity)\<close> and \<open>Container(env, capacity, init)\<close> raise \<open>ValueError\<close>
    for a capacity \<open>\<le> 0\<close> (and for an \<open>init\<close> outside \<open>0..capacity\<close>);
  \<^item> a \<open>Resource\<close> keeps a list of users and a FIFO queue of waiting requests;
    \<open>request()\<close> appends to the queue and lets the head of the queue in when fewer than
    \<open>capacity\<close> users hold the resource; \<open>release\<close> removes the user, and the head of the
    queue is let in when the release event is processed;
  \<^item> \<open>Container.put(amount)\<close> and \<open>Container.get(amount)\<close> raise \<open>ValueError\<close> for an
    amount \<open>\<le> 0\<close>; a put happens once \<open>capacity - level \<ge> amount\<close>, a get once
    \<open>level \<ge> amount\<close>, and stays pending until then;
  \<^item> \<open>env.timeout(delay)\<close> raises \<open>ValueError\<close> for a negative delay;
  \<^item> \<open>env.run(until)\<close> raises \<open>ValueError\<close> when \<open>until\<close> is not after the current time,
    and otherwise processes the events scheduled before \<open>until\<close>.
  A process is identified by what it is: the handling process of ship \<open>i\<close>, or the rail
  dispatcher.
\<close>

datatype proc = ShipProc nat | RailProc

record resource =
  res_capacity :: int
  res_users :: "(proc \<times> real) list"
  res_queue :: "proc list"

text \<open>A user is stored with the time of its grant (SimPy's \<open>usage_since\<close>).\<close>

definition simpy_Resource :: "int \<Rightarrow> error + resource" where
  "simpy_Resource capacity =
     (if capacity \<le> 0 then Inl ValueError
      else Inr \<lparr>res_capacity = capacity, res_users = [], res_queue = []\<rparr>)"

definition res_trigger_put :: "real \<Rightarrow> resource \<Rightarrow> resource" where
  "res_trigger_put t r =
     (case res_queue r of
        [] \<Rightarrow> r
      | p # q \<Rightarrow> if int (length (res_users r)) < res_capacity r
                 then r\<lparr>res_users := res_users r @ [(p, t)], res_queue := q\<rparr>
                 else r)"

definition res_request :: "real \<Rightarrow> resource \<Rightarrow> proc \<Rightarrow> resource" where
  "res_request t r p = res_trigger_put t (r\<lparr>res_queue := res_queue r @ [p]\<rparr>)"

definition res_release :: "resource \<Rightarrow> proc \<Rightarrow> resource" where
  "res_release r p = r\<lparr>res_users := filter (\<lambda>u. fst u \<noteq> p) (res_users r)\<rparr>"

definition res_count :: "resource \<Rightarrow> nat" where
  "res_count r = length (res_users r)"

definition granted :: "resource \<Rightarrow> proc \<Rightarrow> real \<Rightarrow> bool" where
  "granted r p t \<longleftrightarrow> (p, t) \<in> set (res_users r)"

record container =
  cont_capacity :: real
  cont_level :: real

definition simpy_Container :: "real \<Rightarrow> real \<Rightarrow> error + container" where
  "simpy_Container capacity init =
     (if capacity \<le> 0 then Inl ValueError
      else if init < 0 then Inl ValueError
      else if init > capacity then Inl ValueError
      else Inr \<lparr>cont_capacity = capacity, cont_level = init\<rparr>)"

text \<open>
  The result of \<open>put\<close> and \<open>get\<close>: the container, and whether the request was carried out
  at once (\<open>True\<close>) or is left pending (\<open>False\<close>, container unchanged).
\<close>

definition container_put :: "container \<Rightarrow> real \<Rightarrow> error + container \<times> bool" where
  "container_put c amount =
     (if amount \<le> 0 then Inl ValueError
      else if cont_capacity c - cont_level c \<ge> amount
           then Inr (c\<lparr>cont_level := cont_level c + amount\<rparr>, True)
           else Inr (c, False))"

definition container_get :: "container \<Rightarrow> real \<Rightarrow> error + container \<times> bool" where
  "container_get c amount =
     (if amount \<le> 0 then Inl ValueError
      else if cont_level c \<ge> amount
           then Inr (c\<lparr>cont_level := cont_level c - amount\<rparr>, True)
           else Inr (c, False))"

subsection \<open>Port (lines 67-116)\<close>

datatype resname = OilBerths | DryBerths | Cranes | Railway

datatype pool = GrainStorage | GeneralStorage | OilStorage

record port =
  resources :: "resname \<Rightarrow> resource"
  storages :: "pool \<Rightarrow> container"
  total_storage_used :: real
  total_storage_capacity :: real

text \<open>The constructor creates the resources in the order of the source; the first failure
  is the one raised.\<close>

definition Port_init :: "config \<Rightarrow> error + port" where
  "Port_init cfg =
    (case simpy_Resource (oil_berths cfg) of Inl e \<Rightarrow> Inl e | Inr ob \<Rightarrow>
    (case simpy_Resource (dry_berths cfg) of Inl e \<Rightarrow> Inl e | Inr db \<Rightarrow>
    (case simpy_Resource (cranes cfg) of Inl e \<Rightarrow> Inl e | Inr cr \<Rightarrow>
    (case simpy_Container (grain_storage_capacity cfg) 0 of Inl e \<Rightarrow> Inl e | Inr gs \<Rightarrow>
    (case simpy_Container (general_storage_capacity cfg) 0 of Inl e \<Rightarrow> Inl e | Inr ns \<Rightarrow>
    (case simpy_Container (oil_storage_capacity cfg) 0 of Inl e \<Rightarrow> Inl e | Inr os \<Rightarrow>
    (case simpy_Resource (railway_capacity cfg) of Inl e \<Rightarrow> Inl e | Inr rw \<Rightarrow>
     Inr \<lparr>resources = (\<lambda>r. case r of OilBerths \<Rightarrow> ob | DryBerths \<Rightarrow> db
                                      | Cranes \<Rightarrow> cr | Railway \<Rightarrow> rw),
          storages = (\<lambda>p. case p of GrainStorage \<Rightarrow> gs | GeneralStorage \<Rightarrow> ns
                                    | OilStorage \<Rightarrow> os),
          total_storage_used = 0,
          total_storage_capacity = grain_storage_capacity cfg +
                                   general_storage_capacity cfg +
                                   oil_storage_capacity cfg\<rparr>)))))))"

definition get_berth :: "cargo_type \<Rightarrow> resname" where
  "get_berth ct = (if ct = Oil then OilBerths else DryBerths)"

definition get_storage :: "cargo_type \<Rightarrow> pool" where
  "get_storage ct =
     (if ct = Grain then GrainStorage else if ct = Oil then OilStorage else GeneralStorage)"

definition get_unloading_speed :: "config \<Rightarrow> cargo_type \<Rightarrow> real" where
  "get_unloading_speed cfg ct =
     (case ct of Grain \<Rightarrow> grain_speed cfg | Oil \<Rightarrow> oil_speed cfg
               | General \<Rightarrow> general_speed cfg)"

definition level :: "port \<Rightarrow> pool \<Rightarrow> real" where
  "level p pl = cont_level (storages p pl)"

definition set_resource :: "port \<Rightarrow> resname \<Rightarrow> resource \<Rightarrow> port" where
  "set_resource p r v = p\<lparr>resources := (resources p)(r := v)\<rparr>"

definition set_storage :: "port \<Rightarrow> pool \<Rightarrow> container \<Rightarrow> port" where
  "set_storage p pl c = p\<lparr>storages := (storages p)(pl := c)\<rparr>"

subsection \<open>The state of a run\<close>

text \<open>
  A generator function is a state machine: its state is its local variables and the
  \<open>yield\<close> at which it is suspended. The code between two yields runs without interruption.
  \<open>ship_pc\<close> names the yields of \<open>ship_process\<close> (lines 121-174):
  \<^item> \<open>Created\<close>: the process exists and has not started;
  \<^item> \<open>WaitBerth\<close>: at \<open>yield berth_req\<close> (line 130);
  \<^item> \<open>WaitCrane\<close>: at \<open>yield crane_req\<close> (line 137);
  \<^item> \<open>WaitPoll\<close>: at \<open>yield env.timeout(1)\<close> in the loop that waits for storage headroom
    (lines 143, 157);
  \<^item> \<open>WaitUnload\<close>: at \<open>yield env.timeout(unloading_time)\<close>, the active unloading
    (lines 148, 161);
  \<^item> \<open>PutPending\<close>, \<open>PutTriggered\<close>: at \<open>yield storage.put(cargo_amount)\<close>, placing the
    cargo into storage (lines 151, 163), with the put still pending or carried out;
  \<^item> \<open>Finished\<close>: the generator has returned.
\<close>

datatype ship_pc =
  Created | WaitBerth | WaitCrane | WaitPoll | WaitUnload | PutPending | PutTriggered | Finished

record ship =
  cargo :: cargo_type
  cargo_amount :: real
  arrival_time :: real
  berth_wait_time :: real
  ship_pc :: ship_pc
  ship_wake :: real

text \<open>
  \<open>rail_pc\<close> names the yields of \<open>railway_unload_process\<close> (lines 179-212):
  \<open>RWaitInterval\<close> line 182, \<open>RWaitTrack\<close> line 185, \<open>RWaitGetFull\<close> lines 191/193/195,
  \<open>RWaitGetGrain\<close> line 202, \<open>RWaitGetGeneral\<close> line 206, \<open>RWaitGetOil\<close> line 210,
  \<open>RWaitLoad\<close> line 212. \<open>RGetPending\<close> is a get that was not carried out at once.
\<close>

datatype rail_pc =
  RCreated | RWaitInterval | RWaitTrack | RWaitGetFull | RWaitGetGrain | RWaitGetGeneral
  | RWaitGetOil | RWaitLoad | RGetPending

record sim =
  now :: real
  port :: port
  metrics :: port_metrics
  ships :: "nat \<Rightarrow> ship option"
  gen_ship_id :: nat
  gen_wake :: real
  rail_pc :: rail_pc
  rail_wake :: real
  rail_amount :: real
  rail_take :: real

subsection \<open>ship_process (lines 121-174)\<close>

definition put_ship :: "sim \<Rightarrow> nat \<Rightarrow> ship \<Rightarrow> sim" where
  "put_ship s i sh = s\<lparr>ships := (ships s)(i \<mapsto> sh)\<rparr>"

text \<open>Lines 122-130: from the start of the process to \<open>yield berth_req\<close>.\<close>

definition ship_start :: "real \<Rightarrow> nat \<Rightarrow> ship \<Rightarrow> sim \<Rightarrow> error + sim" where
  "ship_start t i sh s =
     (let berth = get_berth (cargo sh);
          queue_length = length (res_queue (resources (port s) berth));
          m = record_ship_arrival (metrics s) t queue_length;
          p = set_resource (port s) berth
                (res_request t (resources (port s) berth) (ShipProc i))
      in Inr (put_ship (s\<lparr>metrics := m, port := p\<rparr>) i
                (sh\<lparr>arrival_time := t, ship_pc := WaitBerth\<rparr>)))"

text \<open>
  Lines 139-148 (and 154-161 for oil): the loop head that tests for storage headroom, one
  poll tick if there is none, else the start of the unloading. The cargo amount is a Python
  float, so a zero speed raises \<open>ZeroDivisionError\<close>; a negative delay raises
  \<open>ValueError\<close>.
\<close>

definition ship_check_storage :: "config \<Rightarrow> real \<Rightarrow> nat \<Rightarrow> ship \<Rightarrow> sim \<Rightarrow> error + sim" where
  "ship_check_storage cfg t i sh s =
     (let storage = storages (port s) (get_storage (cargo sh)) in
      if cont_level storage + cargo_amount sh > cont_capacity storage
      then Inr (put_ship s i (sh\<lparr>ship_pc := WaitPoll, ship_wake := t + 1\<rparr>))
      else
        let unloading_speed = get_unloading_speed cfg (cargo sh) in
        if unloading_speed = 0 then Inl ZeroDivisionError
        else
          let unloading_time = cargo_amount sh / unloading_speed in
          if unloading_time < 0 then Inl ValueError
          else Inr (put_ship s i
                      (sh\<lparr>ship_pc := WaitUnload, ship_wake := t + unloading_time\<rparr>)))"

text \<open>Lines 131-137: after the berth is granted.\<close>

definition ship_berthed :: "config \<Rightarrow> real \<Rightarrow> nat \<Rightarrow> ship \<Rightarrow> sim \<Rightarrow> error + sim" where
  "ship_berthed cfg t i sh s =
     (let sh1 = sh\<lparr>berth_wait_time := t - arrival_time sh\<rparr> in
      if cargo sh \<noteq> Oil
      then Inr (put_ship
                  (s\<lparr>port := set_resource (port s) Cranes
                               (res_request t (resources (port s) Cranes) (ShipProc i))\<rparr>)
                  i (sh1\<lparr>ship_pc := WaitCrane\<rparr>))
      else ship_check_storage cfg t i sh1 s)"

text \<open>Lines 151 and 163: \<open>yield storage.put(cargo_amount)\<close>.\<close>

definition ship_put :: "real \<Rightarrow> nat \<Rightarrow> ship \<Rightarrow> sim \<Rightarrow> error + sim" where
  "ship_put t i sh s =
     (let pl = get_storage (cargo sh) in
      case container_put (storages (port s) pl) (cargo_amount sh) of
        Inl e \<Rightarrow> Inl e
      | Inr (c, done) \<Rightarrow>
          if done
          then Inr (put_ship (s\<lparr>port := set_storage (port s) pl c\<rparr>) i
                      (sh\<lparr>ship_pc := PutTriggered, ship_wake := t\<rparr>))
          else Inr (put_ship s i (sh\<lparr>ship_pc := PutPending\<rparr>)))"

text \<open>
  Lines 151-174, after the put: the two \<open>with\<close> blocks end (the crane request of a non-oil
  ship is released first, then the berth request), the ship is recorded, and a ship whose
  \<open>ship_id\<close> is a multiple of 10 records the resource usage.
\<close>

definition ship_depart :: "real \<Rightarrow> nat \<Rightarrow> ship \<Rightarrow> sim \<Rightarrow> error + sim" where
  "ship_depart t i sh s =
     (let p1 = (if cargo sh \<noteq> Oil
                then set_resource (port s) Cranes
                       (res_release (resources (port s) Cranes) (ShipProc i))
                else port s);
          berth = get_berth (cargo sh);
          p2 = set_resource p1 berth (res_release (resources p1 berth) (ShipProc i));
          processing_time = t - arrival_time sh;
          m1 = record_ship_processing (metrics s) (berth_wait_time sh) processing_time
                 (cargo_amount sh);
          m2 = (if i mod 10 = 0
                then
                  let berths_busy = res_count (resources p2 OilBerths) +
                                    res_count (resources p2 DryBerths);
                      cranes_busy = res_count (resources p2 Cranes);
                      storage_used = level p2 GrainStorage + level p2 GeneralStorage +
                                     level p2 OilStorage
                  in record_resource_usage m1 t berths_busy cranes_busy storage_used
                       (total_storage_capacity p2)
                else m1)
      in Inr (put_ship (s\<lparr>port := p2, metrics := m2\<rparr>) i (sh\<lparr>ship_pc := Finished\<rparr>)))"

text \<open>
  The engine resumes the process of ship \<open>i\<close> at time \<open>t\<close>. \<open>None\<close>: the process cannot be
  resumed at \<open>t\<close> (the event it waits for is not due then).
\<close>

definition ship_resume :: "config \<Rightarrow> real \<Rightarrow> nat \<Rightarrow> sim \<Rightarrow> (error + sim) option" where
  "ship_resume cfg t i s =
     (case ships s i of
        None \<Rightarrow> None
      | Some sh \<Rightarrow>
         (case ship_pc sh of
            Created \<Rightarrow> if t = ship_wake sh then Some (ship_start t i sh s) else None
          | WaitBerth \<Rightarrow>
              if granted (resources (port s) (get_berth (cargo sh))) (ShipProc i) t
              then Some (ship_berthed cfg t i sh s) else None
          | WaitCrane \<Rightarrow>
              if granted (resources (port s) Cranes) (ShipProc i) t
              then Some (ship_check_storage cfg t i sh s) else None
          | WaitPoll \<Rightarrow>
              if t = ship_wake sh then Some (ship_check_storage cfg t i sh s) else None
          | WaitUnload \<Rightarrow> if t = ship_wake sh then Some (ship_put t i sh s) else None
          | PutPending \<Rightarrow> None
          | PutTriggered \<Rightarrow> if t = ship_wake sh then Some (ship_depart t i sh s) else None
          | Finished \<Rightarrow> None))"

text \<open>A pending put is carried out later, when the container has room for it.\<close>

definition put_retry :: "real \<Rightarrow> nat \<Rightarrow> sim \<Rightarrow> (error + sim) option" where
  "put_retry t i s =
     (case ships s i of
        None \<Rightarrow> None
      | Some sh \<Rightarrow>
          if ship_pc sh = PutPending
          then (case ship_put t i sh s of
                  Inl e \<Rightarrow> Some (Inl e)
                | Inr s' \<Rightarrow> (case ships s' i of
                               None \<Rightarrow> None
                             | Some sh' \<Rightarrow> if ship_pc sh' = PutTriggered
                                           then Some (Inr s') else None))
          else None)"

subsection \<open>railway_unload_process (lines 179-212)\<close>

text \<open>Lines 181-182: the interval and \<open>yield env.timeout(interval)\<close>.\<close>

definition rail_sleep :: "config \<Rightarrow> real \<Rightarrow> sim \<Rightarrow> error + sim" where
  "rail_sleep cfg t s =
     (if trains_per_day cfg = 0 then Inl ZeroDivisionError
      else
        let interval = 24 / trains_per_day cfg in
        if interval < 0 then Inl ValueError
        else Inr (s\<lparr>rail_pc := RWaitInterval, rail_wake := t + interval\<rparr>))"

text \<open>Lines 184-185: \<open>port.railway.request()\<close> and \<open>yield rail_req\<close>.\<close>

definition rail_request :: "real \<Rightarrow> sim \<Rightarrow> error + sim" where
  "rail_request t s =
     Inr (s\<lparr>port := set_resource (port s) Railway
                      (res_request t (resources (port s) Railway) RailProc),
            rail_pc := RWaitTrack\<rparr>)"

text \<open>One \<open>yield storage.get(amount)\<close>; \<open>pc\<close> is the yield.\<close>

definition rail_get :: "real \<Rightarrow> pool \<Rightarrow> real \<Rightarrow> rail_pc \<Rightarrow> sim \<Rightarrow> error + sim" where
  "rail_get t pl amount pc s =
     (case container_get (storages (port s) pl) amount of
        Inl e \<Rightarrow> Inl e
      | Inr (c, done) \<Rightarrow>
          if done
          then Inr (s\<lparr>port := set_storage (port s) pl c, rail_pc := pc, rail_wake := t\<rparr>)
          else Inr (s\<lparr>rail_pc := RGetPending\<rparr>))"

text \<open>Line 212: \<open>yield env.timeout(2)\<close>.\<close>

definition rail_load :: "real \<Rightarrow> sim \<Rightarrow> error + sim" where
  "rail_load t s = Inr (s\<lparr>rail_pc := RWaitLoad, rail_wake := t + 2\<rparr>)"

text \<open>Lines 208-210, with \<open>amount\<close> the tonnage still to take.\<close>

definition rail_take_oil :: "real \<Rightarrow> real \<Rightarrow> sim \<Rightarrow> error + sim" where
  "rail_take_oil t amount s =
     (if amount > 0 \<and> level (port s) OilStorage > 0
      then let take = min amount (level (port s) OilStorage)
           in rail_get t OilStorage take RWaitGetOil
                (s\<lparr>rail_amount := amount, rail_take := take\<rparr>)
      else rail_load t s)"

text \<open>Lines 204-206.\<close>

definition rail_take_general :: "real \<Rightarrow> real \<Rightarrow> sim \<Rightarrow> error + sim" where
  "rail_take_general t amount s =
     (if amount > 0 \<and> level (port s) GeneralStorage > 0
      then let take = min amount (level (port s) GeneralStorage)
           in rail_get t GeneralStorage take RWaitGetGeneral
                (s\<lparr>rail_amount := amount, rail_take := take\<rparr>)
      else rail_take_oil t amount s)"

text \<open>Lines 200-202.\<close>

definition rail_take_grain :: "real \<Rightarrow> real \<Rightarrow> sim \<Rightarrow> error + sim" where
  "rail_take_grain t amount s =
     (if level (port s) GrainStorage > 0
      then let take = min amount (level (port s) GrainStorage)
           in rail_get t GrainStorage take RWaitGetGrain
                (s\<lparr>rail_amount := amount, rail_take := take\<rparr>)
      else rail_take_general t amount s)"

text \<open>Lines 187-199: after the track is granted, up to the first yield.\<close>

definition rail_dispatch :: "config \<Rightarrow> real \<Rightarrow> sim \<Rightarrow> error + sim" where
  "rail_dispatch cfg t s =
     (let unload_amount = train_capacity cfg in
      if level (port s) GrainStorage \<ge> unload_amount
      then rail_get t GrainStorage unload_amount RWaitGetFull s
      else if level (port s) GeneralStorage \<ge> unload_amount
      then rail_get t GeneralStorage unload_amount RWaitGetFull s
      else if level (port s) OilStorage \<ge> unload_amount
      then rail_get t OilStorage unload_amount RWaitGetFull s
      else
        let amount = min unload_amount
                       (level (port s) GrainStorage + level (port s) GeneralStorage +
                        level (port s) OilStorage)
        in if amount > 0 then rail_take_grain t amount s else rail_load t s)"

text \<open>Line 212 is over: the \<open>with\<close> block ends, the track is released, the loop starts
  again at line 181.\<close>

definition rail_loaded :: "config \<Rightarrow> real \<Rightarrow> sim \<Rightarrow> error + sim" where
  "rail_loaded cfg t s =
     rail_sleep cfg t
       (s\<lparr>port := set_resource (port s) Railway
                    (res_release (resources (port s) Railway) RailProc)\<rparr>)"

definition rail_resume :: "config \<Rightarrow> real \<Rightarrow> sim \<Rightarrow> (error + sim) option" where
  "rail_resume cfg t s =
     (case rail_pc s of
        RCreated \<Rightarrow> if t = rail_wake s then Some (rail_sleep cfg t s) else None
      | RWaitInterval \<Rightarrow> if t = rail_wake s then Some (rail_request t s) else None
      | RWaitTrack \<Rightarrow>
          if granted (resources (port s) Railway) RailProc t
          then Some (rail_dispatch cfg t s) else None
      | RWaitGetFull \<Rightarrow> if t = rail_wake s then Some (rail_load t s) else None
      | RWaitGetGrain \<Rightarrow>
          if t = rail_wake s
          then Some (rail_take_general t (rail_amount s - rail_take s) s) else None
      | RWaitGetGeneral \<Rightarrow>
          if t = rail_wake s
          then Some (rail_take_oil t (rail_amount s - rail_take s) s) else None
      | RWaitGetOil \<Rightarrow> if t = rail_wake s then Some (rail_load t s) else None
      | RWaitLoad \<Rightarrow> if t = rail_wake s then Some (rail_loaded cfg t s) else None
      | RGetPending \<Rightarrow> None)"

subsection \<open>ship_generator (lines 217-241)\<close>

text \<open>
  The random draws of one loop iteration are given from outside: the cargo type, the
  tonnage and the delay to the next arrival. NumPy's checks are modelled as far as they
  raise: \<open>choice\<close> raises \<open>ValueError\<close> for a negative probability or probabilities that do
  not sum to 1 within \<open>sqrt(eps) = 2^-26\<close>, \<open>exponential\<close> raises \<open>ValueError\<close> for a negative
  scale. A draw outside the support of its distribution is no draw (\<open>None\<close>).
\<close>

definition choice_ok :: "(cargo_type \<Rightarrow> real) \<Rightarrow> bool" where
  "choice_ok p \<longleftrightarrow>
     p Grain \<ge> 0 \<and> p Oil \<ge> 0 \<and> p General \<ge> 0 \<and>
     \<bar>p Grain + p Oil + p General - 1\<bar> \<le> 1 / 2 ^ 26"

definition uniform_range :: "cargo_type \<Rightarrow> real \<times> real" where
  "uniform_range ct =
     (if ct = Grain then (3000, 8000) else if ct = Oil then (5000, 15000)
      else (1000, 5000))"

definition ship_arrive ::
  "config \<Rightarrow> real \<Rightarrow> cargo_type \<Rightarrow> real \<Rightarrow> real \<Rightarrow> sim \<Rightarrow> (error + sim) option" where
  "ship_arrive cfg t ct amount delay s =
     (if t \<noteq> gen_wake s then None
      else if ships_per_year cfg = 0 then Some (Inl ZeroDivisionError)
      else
        let inter_arrival_time = 8760 / ships_per_year cfg in
        if \<not> choice_ok (cargo_distribution cfg) then Some (Inl ValueError)
        else if cargo_distribution cfg ct \<le> 0 then None
        else if amount < fst (uniform_range ct) \<or> snd (uniform_range ct) < amount
        then None
        else if inter_arrival_time < 0 then Some (Inl ValueError)
        else if delay < 0 then None
        else
          let ship_id = gen_ship_id s;
              sh = \<lparr>cargo = ct, cargo_amount = amount, arrival_time = t,
                    berth_wait_time = 0, ship_pc = Created, ship_wake = t\<rparr>
          in Some (Inr ((put_ship s ship_id sh)
                          \<lparr>gen_ship_id := ship_id + 1, gen_wake := t + delay\<rparr>)))"

subsection \<open>The engine and run_simulation (lines 245-257)\<close>

text \<open>
  What the engine does next is an event, stamped with the simulated time at which it
  happens:
  \<^item> \<open>Arrive t ct amount delay\<close>: one iteration of \<open>ship_generator\<close>, with its draws;
  \<^item> \<open>ShipResume t i\<close>: the process of ship \<open>i\<close> continues to its next yield;
  \<^item> \<open>PutRetry t i\<close>: the pending put of ship \<open>i\<close> is carried out;
  \<^item> \<open>ResTrigger t r\<close>: resource \<open>r\<close> lets the head of its queue in after a release;
  \<^item> \<open>RailResume t\<close>: the rail dispatcher continues to its next yield.
  The order of events that are due at the same instant, which SimPy fixes by the order of
  scheduling, is left open here: a run of the program is one of the event sequences that
  \<open>run_events\<close> accepts.
\<close>

datatype event =
    Arrive real cargo_type real real
  | ShipResume real nat
  | PutRetry real nat
  | ResTrigger real resname
  | RailResume real

fun event_time :: "event \<Rightarrow> real" where
  "event_time (Arrive t ct amount delay) = t"
| "event_time (ShipResume t i) = t"
| "event_time (PutRetry t i) = t"
| "event_time (ResTrigger t r) = t"
| "event_time (RailResume t) = t"

fun fire :: "config \<Rightarrow> sim \<Rightarrow> event \<Rightarrow> (error + sim) option" where
  "fire cfg s (Arrive t ct amount delay) = ship_arrive cfg t ct amount delay s"
| "fire cfg s (ShipResume t i) = ship_resume cfg t i s"
| "fire cfg s (PutRetry t i) = put_retry t i s"
| "fire cfg s (ResTrigger t r) =
     Some (Inr (s\<lparr>port := set_resource (port s) r (res_trigger_put t (resources (port s) r))\<rparr>))"
| "fire cfg s (RailResume t) = rail_resume cfg t s"

text \<open>Simulated time never goes back: an event is processed at a time \<open>\<ge> now\<close>.\<close>

definition step :: "config \<Rightarrow> sim \<Rightarrow> event \<Rightarrow> (error + sim) option" where
  "step cfg s e =
     (if event_time e < now s then None
      else fire cfg (s\<lparr>now := event_time e\<rparr>) e)"

text \<open>\<open>env.run(until)\<close>: events before the horizon only. An exception ends the run.\<close>

fun run_events :: "config \<Rightarrow> real \<Rightarrow> sim \<Rightarrow> event list \<Rightarrow> (error + sim) option" where
  "run_events cfg until s [] = Some (Inr s)"
| "run_events cfg until s (e # es) =
     (if event_time e < until
      then (case step cfg s e of
              None \<Rightarrow> None
            | Some (Inl err) \<Rightarrow> Some (Inl err)
            | Some (Inr s') \<Rightarrow> run_events cfg until s' es)
      else None)"

text \<open>
  Lines 246-252 and the entry check of \<open>env.run\<close>: what happens before the first event.
  Both processes are created and start at time 0.
\<close>

definition run_simulation_init :: "config \<Rightarrow> real \<Rightarrow> error + sim" where
  "run_simulation_init cfg simulation_hours =
     (case Port_init cfg of
        Inl e \<Rightarrow> Inl e
      | Inr p \<Rightarrow>
          if simulation_hours \<le> 0 then Inl ValueError
          else Inr \<lparr>now = 0, port = p, metrics = PortMetrics_init, ships = Map.empty,
                    gen_ship_id = 0, gen_wake = 0, rail_pc = RCreated, rail_wake = 0,
                    rail_amount = 0, rail_take = 0\<rparr>)"

definition run_simulation :: "config \<Rightarrow> real \<Rightarrow> event list \<Rightarrow> (error + sim) option" where
  "run_simulation cfg simulation_hours es =
     (case run_simulation_init cfg simulation_hours of
        Inl e \<Rightarrow> Some (Inl e)
      | Inr s \<Rightarrow> run_events cfg simulation_hours s es)"

subsection \<open>Observations used in the statements\<close>

text \<open>The values that \<open>main\<close> offers as defaults (lines 590-650); the scenario of the
  specification uses the same ones.\<close>

definition default_config :: config where
  "default_config =
     \<lparr>oil_berths = 5, dry_berths = 5, cranes = 7, grain_speed = 300, oil_speed = 1000,
      general_speed = 20, grain_storage_capacity = 100000,
      general_storage_capacity = 20000, oil_storage_capacity = 540000,
      trains_per_day = 7, train_capacity = 2000, railway_capacity = 2,
      ships_per_year = 714,
      cargo_distribution =
        (\<lambda>c. case c of Grain \<Rightarrow> 32 / 100 | Oil \<Rightarrow> 35 / 100 | General \<Rightarrow> 33 / 100)\<rparr>"

text \<open>The state a run ends in, when it ends without an exception.\<close>

definition final_state :: "(error + sim) option \<Rightarrow> sim option" where
  "final_state r = (case r of Some (Inr s) \<Rightarrow> Some s | _ \<Rightarrow> None)"

text \<open>A process holds a resource while it is among the resource's users.\<close>

definition in_users :: "resource \<Rightarrow> proc \<Rightarrow> bool" where
  "in_users r p \<longleftrightarrow> p \<in> fst ` set (res_users r)"

definition in_queue :: "resource \<Rightarrow> proc \<Rightarrow> bool" where
  "in_queue r p \<longleftrightarrow> p \<in> set (res_queue r)"

definition holds :: "sim \<Rightarrow> resname \<Rightarrow> nat \<Rightarrow> bool" where
  "holds s r i \<longleftrightarrow> in_users (resources (port s) r) (ShipProc i)"

text \<open>Every pool is within its bounds, and its capacity is the configured one.\<close>

definition pool_ok :: "container \<Rightarrow> real \<Rightarrow> bool" where
  "pool_ok c capacity \<longleftrightarrow>
     cont_capacity c = capacity \<and> 0 \<le> cont_level c \<and> cont_level c \<le> capacity"

definition storage_ok :: "config \<Rightarrow> port \<Rightarrow> bool" where
  "storage_ok cfg p \<longleftrightarrow>
     pool_ok (storages p GrainStorage) (grain_storage_capacity cfg) \<and>
     pool_ok (storages p GeneralStorage) (general_storage_capacity cfg) \<and>
     pool_ok (storages p OilStorage) (oil_storage_capacity cfg)"


text \<open>
  The ship whose handling the event completes, if any: the event resumes a ship whose put
  has been carried out, so the process runs lines 165-174 and returns.
\<close>

definition completing_ship :: "sim \<Rightarrow> event \<Rightarrow> nat option" where
  "completing_ship s e =
     (case e of
        ShipResume t i \<Rightarrow>
          (case ships s i of
             Some sh \<Rightarrow> if ship_pc sh = PutTriggered then Some i else None
           | None \<Rightarrow> None)
      | _ \<Rightarrow> None)"

definition snapshot_due :: "sim \<Rightarrow> event \<Rightarrow> bool" where
  "snapshot_due s e \<longleftrightarrow>
     (case completing_ship s e of Some i \<Rightarrow> i mod 10 = 0 | None \<Rightarrow> False)"





text \<open>Observations of the outcome of a run.\<close>

definition ship_pc_after :: "(error + sim) option \<Rightarrow> nat \<Rightarrow> ship_pc option" where
  "ship_pc_after r i =
     (case final_state r of Some s \<Rightarrow> map_option ship_pc (ships s i) | None \<Rightarrow> None)"

definition holds_after :: "(error + sim) option \<Rightarrow> resname \<Rightarrow> nat \<Rightarrow> bool" where
  "holds_after r res i = (case final_state r of Some s \<Rightarrow> holds s res i | None \<Rightarrow> False)"

definition processed_after :: "(error + sim) option \<Rightarrow> nat option" where
  "processed_after r = map_option (ships_processed \<circ> metrics) (final_state r)"

definition snapshots_after :: "(error + sim) option \<Rightarrow> nat option" where
  "snapshots_after r = map_option (length \<circ> berth_usage \<circ> metrics) (final_state r)"

definition rail_after :: "(error + sim) option \<Rightarrow> (rail_pc \<times> real) option" where
  "rail_after r =
     (case final_state r of Some s \<Rightarrow> Some (rail_pc s, rail_wake s) | None \<Rightarrow> None)"

definition raised :: "(error + sim) option \<Rightarrow> error option" where
  "raised r = (case r of Some (Inl e) \<Rightarrow> Some e | _ \<Rightarrow> None)"

text \<open>
  Three runs under the default configuration. In each of them at most one event is due at
  any instant for any process, so the order below is the order of the engine.
  \<^item> One general-cargo ship of 1000 t arrives at time 0 into the empty port: it starts, gets
    a dry berth and a crane at once, unloads for 1000 / 20 = 50 hours, puts its cargo into
    the general store and departs.
  \<^item> The rail dispatcher alone: it starts, sleeps 24 / 7 hours, takes the track, finds the
    stores empty, loads for 2 hours, releases the track and sleeps again.
  \<^item> One tanker of 5000 t arrives at time 0 and pumps for 5 hours, while the dispatcher
    makes its first (empty) trip; at its second firing, at 24/7 + 2 + 24/7 hours, the
    dispatcher has the track and finds 5000 t of oil.
\<close>

definition one_ship_run :: "event list" where
  "one_ship_run =
     [Arrive 0 General 1000 10000, ShipResume 0 0, ShipResume 0 0, ShipResume 0 0,
      ShipResume 50 0, ShipResume 50 0]"

definition rail_only_run :: "event list" where
  "rail_only_run =
     [RailResume 0, RailResume (24 / 7), RailResume (24 / 7), RailResume (24 / 7 + 2)]"

definition tanker_and_rail_run :: "event list" where
  "tanker_and_rail_run =
     [RailResume 0, Arrive 0 Oil 5000 10000, ShipResume 0 0, ShipResume 0 0,
      RailResume (24 / 7), RailResume (24 / 7), ShipResume 5 0, ShipResume 5 0,
      RailResume (24 / 7 + 2), RailResume (24 / 7 + 2 + 24 / 7)]"

text \<open>A log and a configuration with a utilization of exactly 60 percent: one ship of
  219000 t in a year, against a rail capacity of 1 * 1000 * 365 = 365000 t.\<close>

definition util60_metrics :: port_metrics where
  "util60_metrics = record_ship_processing PortMetrics_init 0 24 219000"

definition util60_config :: config where
  "util60_config = default_config\<lparr>trains_per_day := 1, train_capacity := 1000\<rparr>"











text \<open>Events of the ships and of the resources leave the dispatcher where it is.\<close>

definition rail_same :: "sim \<Rightarrow> sim \<Rightarrow> bool" where
  "rail_same s s' \<longleftrightarrow>
     rail_pc s' = rail_pc s \<and> rail_amount s' = rail_amount s \<and> rail_take s' = rail_take s"

subsection \<open>Invariants of a run\<close>

text \<open>A process is known to a resource when it holds it or waits in its queue. No process
  occurs twice in a resource.\<close>

definition member :: "resource \<Rightarrow> proc \<Rightarrow> bool" where
  "member r p \<longleftrightarrow> in_users r p \<or> in_queue r p"

definition res_wf :: "resource \<Rightarrow> bool" where
  "res_wf r \<longleftrightarrow> distinct (map fst (res_users r) @ res_queue r)"

text \<open>Where the process of ship \<open>i\<close> stands in its berth and in the cranes, by its yield.\<close>

definition ship_inv :: "port \<Rightarrow> nat \<Rightarrow> ship \<Rightarrow> bool" where
  "ship_inv p i sh \<longleftrightarrow>
     (let b = resources p (get_berth (cargo sh)); c = resources p Cranes; q = ShipProc i in
      case ship_pc sh of
        Created \<Rightarrow> \<not> member b q \<and> \<not> member c q
      | WaitBerth \<Rightarrow> member b q \<and> \<not> member c q
      | WaitCrane \<Rightarrow> in_users b q \<and> member c q \<and> cargo sh \<noteq> Oil
      | Finished \<Rightarrow> \<not> member b q \<and> \<not> member c q
      | _ \<Rightarrow> in_users b q \<and> (if cargo sh = Oil then \<not> member c q else in_users c q))"

definition rail_inv :: "sim \<Rightarrow> bool" where
  "rail_inv s \<longleftrightarrow>
     (let r = resources (port s) Railway in
      case rail_pc s of
        RCreated \<Rightarrow> \<not> member r RailProc
      | RWaitInterval \<Rightarrow> \<not> member r RailProc
      | RWaitTrack \<Rightarrow> member r RailProc
      | _ \<Rightarrow> in_users r RailProc)"

definition sim_inv :: "sim \<Rightarrow> bool" where
  "sim_inv s \<longleftrightarrow>
     (\<forall>r. res_wf (resources (port s) r)) \<and>
     (\<forall>i sh. ships s i = Some sh \<longrightarrow> ship_inv (port s) i sh) \<and>
     (\<forall>i r. ships s i = None \<longrightarrow> \<not> member (resources (port s) r) (ShipProc i)) \<and>
     (\<forall>i. gen_ship_id s \<le> i \<longrightarrow> ships s i = None) \<and>
     rail_inv s \<and>
     (\<forall>r. r \<noteq> Railway \<longrightarrow> \<not> member (resources (port s) r) RailProc)"

text \<open>The resources change for the processes in \<open>X\<close> only: every other process stays
  known where it was, and keeps what it holds.\<close>

definition others_kept :: "port \<Rightarrow> port \<Rightarrow> proc set \<Rightarrow> bool" where
  "others_kept p p' X \<longleftrightarrow>
     (\<forall>r q. q \<notin> X \<longrightarrow>
        member (resources p' r) q = member (resources p r) q \<and>
        (in_users (resources p r) q \<longrightarrow> in_users (resources p' r) q))"

text \<open>A segment of the dispatcher that changes the pools and its own variables only.\<close>

definition rail_local :: "sim \<Rightarrow> sim \<Rightarrow> bool" where
  "rail_local s s' \<longleftrightarrow>
     resources (port s') = resources (port s) \<and> ships s' = ships s \<and>
     gen_ship_id s' = gen_ship_id s \<and>
     rail_pc s' \<notin> {RCreated, RWaitInterval, RWaitTrack}"


section \<open>PortMetrics: counter and lists stay in step\<close>

lemma metrics_apply_consistent:
  "metrics_consistent m \<Longrightarrow> metrics_consistent (metrics_apply m x)"
  by (cases x)
     (simp_all add: metrics_consistent_def record_ship_arrival_def
        record_ship_processing_def record_resource_usage_def)

lemma metrics_apply_extends: "metrics_extends m (metrics_apply m x)"
  by (cases x)
     (simp_all add: metrics_extends_def record_ship_arrival_def
        record_ship_processing_def record_resource_usage_def)

lemma foldl_metrics_consistent:
  "metrics_consistent m \<Longrightarrow> metrics_consistent (foldl metrics_apply m ops)"
  by (induction ops arbitrary: m) (simp_all add: metrics_apply_consistent)

text \<open>
  Claim C10. After any sequence of PortMetrics operations starting from a fresh object,
  \<open>ships_processed\<close> equals the length of each of the three per-ship lists; one call of
  \<open>record_ship_processing\<close> adds exactly 1 to the counter and exactly one entry at the end of
  each of the three lists; and every operation leaves each recorded list as a prefix of the
  new one, so no entry is removed or changed.
\<close>

theorem metrics_counter_matches_lists:
  "metrics_consistent (metrics_run ops) \<and>
   ships_processed (record_ship_processing m w p c) = ships_processed m + 1 \<and>
   ship_waiting_times (record_ship_processing m w p c) = ship_waiting_times m @ [w] \<and>
   ship_processing_times (record_ship_processing m w p c) = ship_processing_times m @ [p] \<and>
   cargo_processed (record_ship_processing m w p c) = cargo_processed m @ [c] \<and>
   metrics_extends m (metrics_apply m x)"
proof -
  have "metrics_consistent PortMetrics_init"
    by (simp add: metrics_consistent_def PortMetrics_init_def)
  then have "metrics_consistent (metrics_run ops)"
    unfolding metrics_run_def by (rule foldl_metrics_consistent)
  then show ?thesis
    by (simp add: record_ship_processing_def metrics_apply_extends)
qed

section \<open>Evaluation of concrete runs\<close>

lemmas resource_defs = simpy_Resource_def res_trigger_put_def res_request_def res_release_def
  res_count_def granted_def simpy_Container_def container_put_def container_get_def
  set_resource_def set_storage_def level_def

lemmas rail_defs = rail_sleep_def rail_request_def rail_get_def rail_load_def
  rail_take_oil_def rail_take_general_def rail_take_grain_def rail_dispatch_def
  rail_loaded_def rail_resume_def

lemmas ship_defs = put_ship_def ship_start_def ship_check_storage_def ship_berthed_def
  ship_put_def ship_depart_def ship_resume_def put_retry_def get_berth_def get_storage_def
  get_unloading_speed_def record_ship_arrival_def record_ship_processing_def
  record_resource_usage_def

lemmas run_defs = run_simulation_def run_simulation_init_def Port_init_def step_def
  ship_arrive_def choice_ok_def uniform_range_def PortMetrics_init_def default_config_def

lemmas obs_defs = final_state_def ship_pc_after_def holds_after_def processed_after_def
  snapshots_after_def rail_after_def raised_def holds_def in_users_def in_queue_def

section \<open>Capacity analysis\<close>

lemma py_min_from_fold: "py_min_from id b xs = fold min xs b"
  by (induction xs arbitrary: b) (simp_all add: min_def)

lemma py_min_from_Min: "py_min_from id b xs = Min (set (b # xs))"
  unfolding py_min_from_fold by (rule Min.set_eq_fold [symmetric])

lemma first_minimum_of_four:
  "find (\<lambda>e. snd e = py_min_from id a [b, c, d])
        [(Prichaly, a), (Krany, b), (Sklady, c), (ZhD, d)] =
   Some (py_min_from (dict_get [(Prichaly, a), (Krany, b), (Sklady, c), (ZhD, d)])
           Prichaly [Krany, Sklady, ZhD],
         py_min_from id a [b, c, d])"
  by (simp add: dict_get_def)

lemma report_shape:
  "h \<noteq> 0 \<Longrightarrow> \<exists>r a. calculate_capacity_metrics m p cfg h = Inr r \<and>
     capacities r = [(Prichaly, a),
        (Krany, real_of_int (cranes cfg) * general_speed cfg * 8760 * (7 / 10)),
        (Sklady, (grain_storage_capacity cfg + general_storage_capacity cfg +
                  oil_storage_capacity cfg) * 24),
        (ZhD, trains_per_day cfg * train_capacity cfg * 365)] \<and>
     theoretical_max_capacity_tons r = py_min_from id a (map snd (tl (capacities r))) \<and>
     bottleneck r = py_min_from (dict_get (capacities r)) Prichaly [Krany, Sklady, ZhD]"
  by (simp add: calculate_capacity_metrics_def Let_def del: py_min_from.simps)

text \<open>
  Claim C2. For every log and configuration (and a horizon other than 0, for which the
  function raises), \<open>calculate_capacity_metrics\<close> returns a report whose \<open>capacities\<close> are
  the four per-element capacities in the order berths, cranes, storage, rail (the last three
  by the formulas of the source); \<open>theoretical_max_capacity_tons\<close> is the minimum of the
  four, and \<open>bottleneck\<close> is the first element in that order whose capacity is the minimum.
\<close>

theorem bottleneck_is_first_minimum:
  assumes "simulation_hours \<noteq> 0"
  shows "\<exists>r. calculate_capacity_metrics m p cfg simulation_hours = Inr r \<and>
     map fst (capacities r) = [Prichaly, Krany, Sklady, ZhD] \<and>
     map_of (capacities r) Krany =
       Some (real_of_int (cranes cfg) * general_speed cfg * 8760 * (7 / 10)) \<and>
     map_of (capacities r) Sklady =
       Some ((grain_storage_capacity cfg + general_storage_capacity cfg +
              oil_storage_capacity cfg) * 24) \<and>
     map_of (capacities r) ZhD = Some (trains_per_day cfg * train_capacity cfg * 365) \<and>
     theoretical_max_capacity_tons r = Min (snd ` set (capacities r)) \<and>
     find (\<lambda>e. snd e = theoretical_max_capacity_tons r) (capacities r) =
       Some (bottleneck r, theoretical_max_capacity_tons r)"
proof -
  from report_shape [OF assms, of m p cfg] obtain r a where
    r: "calculate_capacity_metrics m p cfg simulation_hours = Inr r" and
    caps: "capacities r = [(Prichaly, a),
        (Krany, real_of_int (cranes cfg) * general_speed cfg * 8760 * (7 / 10)),
        (Sklady, (grain_storage_capacity cfg + general_storage_capacity cfg +
                  oil_storage_capacity cfg) * 24),
        (ZhD, trains_per_day cfg * train_capacity cfg * 365)]" and
    mx: "theoretical_max_capacity_tons r = py_min_from id a (map snd (tl (capacities r)))" and
    bn: "bottleneck r = py_min_from (dict_get (capacities r)) Prichaly [Krany, Sklady, ZhD]"
    by blast
  have 1: "theoretical_max_capacity_tons r = Min (snd ` set (capacities r))"
    unfolding mx py_min_from_Min by (simp add: caps)
  have 2: "find (\<lambda>e. snd e = theoretical_max_capacity_tons r) (capacities r) =
       Some (bottleneck r, theoretical_max_capacity_tons r)"
    unfolding mx bn unfolding caps using first_minimum_of_four by simp
  show ?thesis using r 1 2 by (simp add: caps)
qed

lemma util60_report:
  "\<exists>r. calculate_capacity_metrics util60_metrics () util60_config 8760 = Inr r \<and>
     capacities r = [(Prichaly, 799350000), (Krany, 858480), (Sklady, 15840000),
                     (ZhD, 365000)] \<and>
     capacity_utilization_pct r = 60 \<and> system_status r = Est_znachitelnyi_rezerv"
  by (simp add: calculate_capacity_metrics_def util60_metrics_def util60_config_def
      default_config_def record_ship_processing_def PortMetrics_init_def np_mean_def
      dict_get_def classify_def Let_def)

theorem bottleneck_is_first_minimum_witness:
  "\<exists>r. calculate_capacity_metrics util60_metrics () util60_config 8760 = Inr r \<and>
     theoretical_max_capacity_tons r = 365000 \<and> bottleneck r = ZhD"
proof -
  have h: "(8760::real) \<noteq> 0" by simp
  from bottleneck_is_first_minimum [OF h, of util60_metrics "()" util60_config]
  obtain r where r: "calculate_capacity_metrics util60_metrics () util60_config 8760 = Inr r"
    and mx: "theoretical_max_capacity_tons r = Min (snd ` set (capacities r))"
    and bn: "find (\<lambda>e. snd e = theoretical_max_capacity_tons r) (capacities r) =
       Some (bottleneck r, theoretical_max_capacity_tons r)"
    by blast
  from util60_report r have caps: "capacities r =
      [(Prichaly, 799350000), (Krany, 858480), (Sklady, 15840000), (ZhD, 365000)]"
    by auto
  have m: "theoretical_max_capacity_tons r = 365000" using mx by (simp add: caps)
  have "bottleneck r = ZhD" using bn unfolding m caps by simp
  with r m show ?thesis by blast
qed

text \<open>
  Claim C9, at a utilization of exactly 60 percent. The function of the source tests
  \<open>capacity_utilization > 80\<close>, then \<open>> 60\<close> (lines 330-338), so 60 itself falls into the
  last branch, "there is a significant reserve", and not into "moderate load". The
  dashboard of the same file classifies the same number with \<open>< 60\<close> and \<open>< 80\<close>
  (lines 771-776 and 1164) and shows 60 as moderate load.
\<close>

theorem status_at_60_is_reserve:
  "map_sum id capacity_utilization_pct
     (calculate_capacity_metrics util60_metrics () util60_config 8760) = Inr 60 \<and>
   map_sum id system_status
     (calculate_capacity_metrics util60_metrics () util60_config 8760) =
     Inr Est_znachitelnyi_rezerv \<and>
   classify 60 = (Est_znachitelnyi_rezerv, ''green'') \<and>
   classify 80 = (Umerennaya_nagruzka, ''orange'')"
  by (simp add: calculate_capacity_metrics_def util60_metrics_def util60_config_def
      default_config_def record_ship_processing_def PortMetrics_init_def np_mean_def
      dict_get_def classify_def Let_def)

section \<open>Before the first event\<close>

lemma init_raises_iff:
  "run_simulation_init cfg h = Inl e \<longleftrightarrow>
     e = ValueError \<and>
     (oil_berths cfg \<le> 0 \<or> dry_berths cfg \<le> 0 \<or> cranes cfg \<le> 0 \<or>
      grain_storage_capacity cfg \<le> 0 \<or> general_storage_capacity cfg \<le> 0 \<or>
      oil_storage_capacity cfg \<le> 0 \<or> railway_capacity cfg \<le> 0 \<or> h \<le> 0)"
  by (auto simp: run_simulation_init_def Port_init_def simpy_Resource_def simpy_Container_def
      split: sum.splits if_splits)

text \<open>
  Claim C5, as the code has it. \<open>run_simulation\<close> has no validation of its own. Before any
  event is processed it raises exactly when SimPy rejects a constructor argument or the
  horizon: one of the two berth counts, the crane count, the track count or one of the three
  storage capacities is not positive, or the horizon is not positive; the exception is
  \<open>ValueError\<close>. For every other configuration the run starts. Nothing is said here about
  a train capacity, a number of trains per day, a number of ships per year or a speed that
  is not positive, nor about a cargo distribution that does not sum to 1: none of them is
  looked at before the first event.
\<close>

theorem rejected_before_first_event:
  "(run_simulation cfg h [] = Some (Inl ValueError)) =
     (oil_berths cfg \<le> 0 \<or> dry_berths cfg \<le> 0 \<or> cranes cfg \<le> 0 \<or>
      grain_storage_capacity cfg \<le> 0 \<or> general_storage_capacity cfg \<le> 0 \<or>
      oil_storage_capacity cfg \<le> 0 \<or> railway_capacity cfg \<le> 0 \<or> h \<le> 0) \<and>
   (raised (run_simulation cfg h []) = None) =
     (0 < oil_berths cfg \<and> 0 < dry_berths cfg \<and> 0 < cranes cfg \<and>
      0 < grain_storage_capacity cfg \<and> 0 < general_storage_capacity cfg \<and>
      0 < oil_storage_capacity cfg \<and> 0 < railway_capacity cfg \<and> 0 < h) \<and>
   raised (run_simulation cfg h []) \<noteq> Some ZeroDivisionError"
proof (cases "run_simulation_init cfg h")
  case (Inl e)
  then show ?thesis
    using init_raises_iff [of cfg h e]
    by (auto simp: run_simulation_def raised_def)
next
  case (Inr s)
  then show ?thesis
    using init_raises_iff [of cfg h ValueError]
    by (auto simp: run_simulation_def raised_def)
qed

theorem rejected_before_first_event_witness:
  "raised (run_simulation default_config 8760 []) = None \<and>
   run_simulation (default_config\<lparr>cranes := 0\<rparr>) 8760 [] = Some (Inl ValueError) \<and>
   run_simulation default_config 0 [] = Some (Inl ValueError)"
proof -
  have ok: "0 < oil_berths default_config \<and> 0 < dry_berths default_config \<and>
      0 < cranes default_config \<and> 0 < grain_storage_capacity default_config \<and>
      0 < general_storage_capacity default_config \<and>
      0 < oil_storage_capacity default_config \<and> 0 < railway_capacity default_config \<and>
      (0::real) < 8760"
    by (simp add: default_config_def)
  have 1: "raised (run_simulation default_config 8760 []) = None"
    using rejected_before_first_event [of default_config 8760] ok by blast
  have "cranes (default_config\<lparr>cranes := 0\<rparr>) \<le> 0" by simp
  then have 2: "run_simulation (default_config\<lparr>cranes := 0\<rparr>) 8760 [] =
      Some (Inl ValueError)"
    using rejected_before_first_event [of "default_config\<lparr>cranes := 0\<rparr>" 8760] by blast
  have "(0::real) \<le> 0" by simp
  then have 3: "run_simulation default_config 0 [] = Some (Inl ValueError)"
    using rejected_before_first_event [of default_config 0] by blast
  from 1 2 3 show ?thesis by blast
qed

text \<open>
  Claim C5 as stated fails for a train capacity of 0, a capacity that is not positive:
  nothing is raised before the first event, the dispatcher starts and sleeps, and only when
  it has the track, 24/7 hours into the run, does \<open>get(0)\<close> raise.
\<close>

theorem zero_train_capacity_not_rejected:
  "raised (run_simulation (default_config\<lparr>train_capacity := 0\<rparr>) 8760 []) = None \<and>
   raised (run_simulation (default_config\<lparr>train_capacity := 0\<rparr>) 8760
            [RailResume 0, RailResume (24 / 7)]) = None \<and>
   run_simulation (default_config\<lparr>train_capacity := 0\<rparr>) 8760
     [RailResume 0, RailResume (24 / 7), RailResume (24 / 7)] = Some (Inl ValueError)"
  by (simp add: run_defs rail_defs resource_defs raised_def Let_def)


section \<open>Storage levels\<close>

lemma storages_set_resource [simp]: "storages (set_resource p r v) = storages p"
  by (simp add: set_resource_def)

lemma storage_ok_set_resource [simp]: "storage_ok cfg (set_resource p r v) = storage_ok cfg p"
  by (simp add: storage_ok_def)

lemma container_put_ok:
  "container_put c a = Inr (c', d) \<Longrightarrow> pool_ok c k \<Longrightarrow> pool_ok c' k"
  by (auto simp: container_put_def pool_ok_def split: if_splits)

lemma container_get_ok:
  "container_get c a = Inr (c', d) \<Longrightarrow> pool_ok c k \<Longrightarrow> pool_ok c' k"
  by (auto simp: container_get_def pool_ok_def split: if_splits)

lemma storage_ok_set_storage:
  "storage_ok cfg p \<Longrightarrow> pool_ok c (cont_capacity (storages p pl)) \<Longrightarrow>
   storage_ok cfg (set_storage p pl c)"
  by (cases pl) (auto simp: storage_ok_def set_storage_def pool_ok_def)

lemma pool_ok_storages:
  "storage_ok cfg p \<Longrightarrow> pool_ok (storages p pl) (cont_capacity (storages p pl))"
  by (cases pl) (auto simp: storage_ok_def pool_ok_def)

lemma rail_get_ok:
  "rail_get t pl a pc s = Inr s' \<Longrightarrow> storage_ok cfg (port s) \<Longrightarrow> storage_ok cfg (port s')"
  by (auto simp: rail_get_def split: sum.splits prod.splits if_splits
      intro!: storage_ok_set_storage dest: container_get_ok pool_ok_storages)

lemma rail_load_ok:
  "rail_load t s = Inr s' \<Longrightarrow> storage_ok cfg (port s) \<Longrightarrow> storage_ok cfg (port s')"
  by (auto simp: rail_load_def)

lemma rail_take_oil_ok:
  "rail_take_oil t a s = Inr s' \<Longrightarrow> storage_ok cfg (port s) \<Longrightarrow> storage_ok cfg (port s')"
  by (auto simp: rail_take_oil_def Let_def split: if_splits dest!: rail_get_ok rail_load_ok)

lemma rail_take_general_ok:
  "rail_take_general t a s = Inr s' \<Longrightarrow> storage_ok cfg (port s) \<Longrightarrow> storage_ok cfg (port s')"
  by (auto simp: rail_take_general_def Let_def split: if_splits dest!: rail_get_ok rail_take_oil_ok)

lemma rail_take_grain_ok:
  "rail_take_grain t a s = Inr s' \<Longrightarrow> storage_ok cfg (port s) \<Longrightarrow> storage_ok cfg (port s')"
  by (auto simp: rail_take_grain_def Let_def split: if_splits dest!: rail_get_ok rail_take_general_ok)

lemma rail_dispatch_ok:
  "rail_dispatch cfg t s = Inr s' \<Longrightarrow> storage_ok cfg (port s) \<Longrightarrow> storage_ok cfg (port s')"
  by (auto simp: rail_dispatch_def Let_def split: if_splits dest!: rail_get_ok rail_take_grain_ok rail_load_ok)

lemma rail_sleep_ok:
  "rail_sleep cfg t s = Inr s' \<Longrightarrow> port s' = port s"
  by (auto simp: rail_sleep_def Let_def split: if_splits)

lemma rail_resume_ok:
  "rail_resume cfg t s = Some (Inr s') \<Longrightarrow> storage_ok cfg (port s) \<Longrightarrow> storage_ok cfg (port s')"
  by (auto simp: rail_resume_def rail_loaded_def rail_request_def split: rail_pc.splits if_splits
      dest!: rail_dispatch_ok rail_take_general_ok rail_take_oil_ok rail_load_ok rail_sleep_ok)

lemma ship_put_ok:
  "ship_put t i sh s = Inr s' \<Longrightarrow> storage_ok cfg (port s) \<Longrightarrow> storage_ok cfg (port s')"
  by (auto simp: ship_put_def put_ship_def Let_def split: sum.splits prod.splits if_splits
      intro!: storage_ok_set_storage dest: container_put_ok pool_ok_storages)

lemma ship_check_storage_ok:
  "ship_check_storage cfg t i sh s = Inr s' \<Longrightarrow> port s' = port s"
  by (auto simp: ship_check_storage_def put_ship_def Let_def split: if_splits)

lemma ship_resume_ok:
  "ship_resume cfg t i s = Some (Inr s') \<Longrightarrow> storage_ok cfg (port s) \<Longrightarrow> storage_ok cfg (port s')"
  by (auto simp: ship_resume_def ship_start_def ship_berthed_def ship_depart_def put_ship_def Let_def
      split: option.splits ship_pc.splits if_splits
      dest!: ship_put_ok ship_check_storage_ok)

lemma put_retry_ok:
  "put_retry t i s = Some (Inr s') \<Longrightarrow> storage_ok cfg (port s) \<Longrightarrow> storage_ok cfg (port s')"
  by (auto simp: put_retry_def split: option.splits sum.splits if_splits dest!: ship_put_ok)

lemma ship_arrive_ok:
  "ship_arrive cfg t ct a d s = Some (Inr s') \<Longrightarrow> port s' = port s"
  by (auto simp: ship_arrive_def put_ship_def Let_def split: if_splits)

lemma fire_storage_ok:
  "fire cfg s e = Some (Inr s') \<Longrightarrow> storage_ok cfg (port s) \<Longrightarrow> storage_ok cfg (port s')"
  by (cases e) (auto dest: ship_arrive_ok ship_resume_ok put_retry_ok rail_resume_ok)

lemma step_storage_ok:
  "step cfg s e = Some (Inr s') \<Longrightarrow> storage_ok cfg (port s) \<Longrightarrow> storage_ok cfg (port s')"
  by (auto simp: step_def split: if_splits dest: fire_storage_ok)

lemma run_events_storage_ok:
  "run_events cfg h s es = Some (Inr s') \<Longrightarrow> storage_ok cfg (port s) \<Longrightarrow> storage_ok cfg (port s')"
  by (induction es arbitrary: s) (auto split: if_splits option.splits sum.splits dest: step_storage_ok)

lemma init_storage_ok:
  "run_simulation_init cfg h = Inr s \<Longrightarrow> storage_ok cfg (port s)"
  by (auto simp: run_simulation_init_def Port_init_def simpy_Resource_def simpy_Container_def
      storage_ok_def pool_ok_def split: if_splits sum.splits)

lemma reachable_storage_ok:
  "run_simulation cfg h es = Some (Inr s) \<Longrightarrow> storage_ok cfg (port s)"
  by (auto simp: run_simulation_def split: sum.splits dest: init_storage_ok run_events_storage_ok)

text \<open>
  Claim C4. In every state that a run reaches, each of the three pools has its configured
  capacity and a level between 0 and that capacity; and every single event of the engine,
  a ship's deposit and a withdrawal of the dispatcher among them, leads from a state with
  this property to a state with this property.
\<close>

theorem storage_levels_within_capacity:
  "(run_simulation cfg h es = Some (Inr s) \<longrightarrow> storage_ok cfg (port s)) \<and>
   (storage_ok cfg (port s0) \<and> step cfg s0 e = Some (Inr s1) \<longrightarrow> storage_ok cfg (port s1))"
  using reachable_storage_ok step_storage_ok by blast

lemma tanker_and_rail_state:
  "\<exists>s. run_simulation default_config 8760 tanker_and_rail_run = Some (Inr s) \<and>
       rail_pc s = RWaitTrack \<and>
       granted (resources (port s) Railway) RailProc (24 / 7 + 2 + 24 / 7) \<and>
       now s = 24 / 7 + 2 + 24 / 7 \<and>
       level (port s) GrainStorage = 0 \<and> level (port s) GeneralStorage = 0 \<and>
       level (port s) OilStorage = 5000"
  by (simp add: tanker_and_rail_run_def run_defs ship_defs rail_defs resource_defs Let_def)

theorem storage_levels_within_capacity_witness:
  "\<exists>s. run_simulation default_config 8760 tanker_and_rail_run = Some (Inr s) \<and>
       level (port s) OilStorage = 5000 \<and> storage_ok default_config (port s)"
proof -
  from tanker_and_rail_state obtain s where
    s: "run_simulation default_config 8760 tanker_and_rail_run = Some (Inr s)"
    and l: "level (port s) OilStorage = 5000" by blast
  from storage_levels_within_capacity [of default_config 8760 tanker_and_rail_run s] s
  have "storage_ok default_config (port s)" by blast
  with s l show ?thesis by blast
qed

section \<open>One firing of the rail dispatcher\<close>








lemma rail_same_now [simp]: "rail_same (s\<lparr>now := t\<rparr>) s' = rail_same s s'"
  by (simp add: rail_same_def)














section \<open>The period of the rail dispatcher\<close>

text \<open>
  Claim C7, under the default configuration (7 trains per day). The dispatcher fires first
  at 24/7 hours. The loading delay of 2 hours comes before the release of the track, and
  the next \<open>timeout(interval)\<close> starts only after it: the dispatcher then sleeps until
  24/7 + 2 + 24/7. It cannot fire at 24/7 + 24/7, one period of 24 / trains_per_day after
  the first firing; it fires at 24/7 + 2 + 24/7.
\<close>

theorem rail_period_includes_loading_delay:
  "rail_after (run_simulation default_config 8760 (take 2 rail_only_run)) =
     Some (RWaitTrack, 24 / 7) \<and>
   rail_after (run_simulation default_config 8760 (take 3 rail_only_run)) =
     Some (RWaitLoad, 24 / 7 + 2) \<and>
   rail_after (run_simulation default_config 8760 rail_only_run) =
     Some (RWaitInterval, 24 / 7 + 2 + 24 / 7) \<and>
   run_simulation default_config 8760 (rail_only_run @ [RailResume (24 / 7 + 24 / 7)]) = None \<and>
   rail_after (run_simulation default_config 8760
                 (rail_only_run @ [RailResume (24 / 7 + 2 + 24 / 7)])) =
     Some (RWaitTrack, 24 / 7 + 2 + 24 / 7)"
  by (simp add: rail_only_run_def rail_after_def final_state_def run_defs rail_defs
      resource_defs Let_def)

section \<open>Utilization snapshots\<close>

lemma ship_resume_metrics:
  assumes "ship_resume cfg t i s = Some (Inr s')"
  shows "ships_processed (metrics s') =
           ships_processed (metrics s) +
           (if completing_ship s (ShipResume t i) = None then 0 else 1) \<and>
         (if snapshot_due s (ShipResume t i)
          then \<exists>b c u. berth_usage (metrics s') = berth_usage (metrics s) @ [(t, b)] \<and>
                 crane_usage (metrics s') = crane_usage (metrics s) @ [(t, c)] \<and>
                 storage_usage (metrics s') = storage_usage (metrics s) @ [(t, u)]
          else berth_usage (metrics s') = berth_usage (metrics s) \<and>
               crane_usage (metrics s') = crane_usage (metrics s) \<and>
               storage_usage (metrics s') = storage_usage (metrics s))"
proof -
  obtain sh where sh: "ships s i = Some sh"
    using assms by (auto simp: ship_resume_def split: option.splits)
  show ?thesis
  proof (cases "ship_pc sh = PutTriggered")
    case True
    then have "ship_depart t i sh s = Inr s'"
      using assms sh by (auto simp: ship_resume_def split: if_splits)
    then show ?thesis
      using sh True
      by (auto simp: ship_depart_def completing_ship_def snapshot_due_def put_ship_def
          record_ship_processing_def record_resource_usage_def Let_def)
  next
    case False
    then have "metrics s' = metrics s \<or> metrics s' = record_ship_arrival (metrics s) t
        (length (res_queue (resources (port s) (get_berth (cargo sh)))))"
      using assms sh
      by (auto simp: ship_resume_def ship_start_def ship_berthed_def ship_check_storage_def
          ship_put_def put_ship_def Let_def
          split: ship_pc.splits if_splits sum.splits prod.splits)
    then show ?thesis
      using sh False
      by (auto simp: completing_ship_def snapshot_due_def record_ship_arrival_def)
  qed
qed

lemma rail_get_metrics: "rail_get t pl a pc s = Inr s' \<Longrightarrow> metrics s' = metrics s"
  by (auto simp: rail_get_def split: sum.splits prod.splits if_splits)

lemma rail_take_oil_metrics: "rail_take_oil t a s = Inr s' \<Longrightarrow> metrics s' = metrics s"
  by (auto simp: rail_take_oil_def rail_load_def Let_def split: if_splits
      dest!: rail_get_metrics)

lemma rail_take_general_metrics:
  "rail_take_general t a s = Inr s' \<Longrightarrow> metrics s' = metrics s"
  by (auto simp: rail_take_general_def Let_def split: if_splits
      dest!: rail_get_metrics rail_take_oil_metrics)

lemma rail_take_grain_metrics: "rail_take_grain t a s = Inr s' \<Longrightarrow> metrics s' = metrics s"
  by (auto simp: rail_take_grain_def Let_def split: if_splits
      dest!: rail_get_metrics rail_take_general_metrics)

lemma rail_resume_metrics: "rail_resume cfg t s = Some (Inr s') \<Longrightarrow> metrics s' = metrics s"
  by (auto simp: rail_resume_def rail_sleep_def rail_request_def rail_load_def
      rail_loaded_def rail_dispatch_def Let_def
      split: rail_pc.splits if_splits
      dest!: rail_get_metrics rail_take_oil_metrics rail_take_general_metrics
        rail_take_grain_metrics)

lemma put_retry_metrics: "put_retry t i s = Some (Inr s') \<Longrightarrow> metrics s' = metrics s"
  by (auto simp: put_retry_def ship_put_def put_ship_def Let_def
      split: option.splits if_splits sum.splits prod.splits)

lemma ship_arrive_metrics:
  "ship_arrive cfg t ct a d s = Some (Inr s') \<Longrightarrow> metrics s' = metrics s"
  by (auto simp: ship_arrive_def put_ship_def Let_def split: if_splits)

lemma completing_ship_now [simp]:
  "completing_ship (s\<lparr>now := t\<rparr>) e = completing_ship s e"
  by (cases e) (simp_all add: completing_ship_def)

lemma snapshot_due_now [simp]: "snapshot_due (s\<lparr>now := t\<rparr>) e = snapshot_due s e"
  by (simp add: snapshot_due_def)

text \<open>
  Claim C8, as the code has it. An event of the engine appends a utilization snapshot (one
  entry to each of \<open>berth_usage\<close>, \<open>crane_usage\<close> and \<open>storage_usage\<close>, stamped with the time
  of the event) exactly when it completes the handling of a ship whose \<open>ship_id\<close>, the number
  of the ship in order of arrival counted from 0, is a multiple of 10; every other event
  leaves the three lists as they are. The counter of completed ships goes up by one at every
  completion and plays no part in the decision.
\<close>

theorem snapshot_when_ship_id_multiple_of_10:
  assumes "step cfg s e = Some (Inr s')"
  shows "ships_processed (metrics s') =
           ships_processed (metrics s) + (if completing_ship s e = None then 0 else 1) \<and>
         (if snapshot_due s e
          then \<exists>b c u.
                 berth_usage (metrics s') = berth_usage (metrics s) @ [(event_time e, b)] \<and>
                 crane_usage (metrics s') = crane_usage (metrics s) @ [(event_time e, c)] \<and>
                 storage_usage (metrics s') = storage_usage (metrics s) @ [(event_time e, u)]
          else berth_usage (metrics s') = berth_usage (metrics s) \<and>
               crane_usage (metrics s') = crane_usage (metrics s) \<and>
               storage_usage (metrics s') = storage_usage (metrics s))"
proof (cases e)
  case (Arrive t ct a d)
  then show ?thesis using assms
    by (auto simp: step_def completing_ship_def snapshot_due_def split: if_splits
        dest!: ship_arrive_metrics)
next
  case (ShipResume t i)
  then have "ship_resume cfg t i (s\<lparr>now := t\<rparr>) = Some (Inr s')"
    using assms by (auto simp: step_def split: if_splits)
  from ship_resume_metrics [OF this] show ?thesis
    unfolding ShipResume by (auto split: if_splits)
next
  case (PutRetry t i)
  then show ?thesis using assms
    by (auto simp: step_def completing_ship_def snapshot_due_def split: if_splits
        dest!: put_retry_metrics)
next
  case (ResTrigger t r)
  then show ?thesis using assms
    by (auto simp: step_def completing_ship_def snapshot_due_def split: if_splits)
next
  case (RailResume t)
  then show ?thesis using assms
    by (auto simp: step_def completing_ship_def snapshot_due_def split: if_splits
        dest!: rail_resume_metrics)
qed

lemma one_ship_before_departure:
  "\<exists>s. run_simulation default_config 8760 (take 5 one_ship_run) = Some (Inr s) \<and>
       now s = 50 \<and>
       (\<exists>sh. ships s 0 = Some sh \<and> ship_pc sh = PutTriggered \<and> cargo sh = General) \<and>
       ships_processed (metrics s) = 0 \<and> berth_usage (metrics s) = [] \<and>
       (\<exists>s'. step default_config s (ShipResume 50 0) = Some (Inr s'))"
  by (simp add: one_ship_run_def run_defs ship_defs resource_defs Let_def)

theorem snapshot_when_ship_id_multiple_of_10_witness:
  "\<exists>s s'. run_simulation default_config 8760 (take 5 one_ship_run) = Some (Inr s) \<and>
     step default_config s (ShipResume 50 0) = Some (Inr s') \<and>
     ships_processed (metrics s') = 1 \<and> length (berth_usage (metrics s')) = 1"
proof -
  from one_ship_before_departure obtain s sh where
    s: "run_simulation default_config 8760 (take 5 one_ship_run) = Some (Inr s)"
    and sh: "ships s 0 = Some sh" "ship_pc sh = PutTriggered"
    and m: "ships_processed (metrics s) = 0" "berth_usage (metrics s) = []"
    and "\<exists>s'. step default_config s (ShipResume 50 0) = Some (Inr s')" by blast
  then obtain s' where
    s': "step default_config s (ShipResume 50 0) = Some (Inr s')" by blast
  have c: "completing_ship s (ShipResume 50 0) = Some 0" "snapshot_due s (ShipResume 50 0)"
    using sh by (simp_all add: completing_ship_def snapshot_due_def)
  from snapshot_when_ship_id_multiple_of_10 [OF s'] c m
  have "ships_processed (metrics s') = 1" "length (berth_usage (metrics s')) = 1"
    by auto
  with s s' show ?thesis by blast
qed

text \<open>
  Claim C8 as stated fails for the first ship. Ship 0 alone in the port: before its last
  event no ship is completed and no snapshot is recorded; the event that completes it brings
  the count of completed ships to 1, not a multiple of 10, and records a snapshot.
\<close>

theorem snapshot_at_first_completion:
  "processed_after (run_simulation default_config 8760 (take 5 one_ship_run)) = Some 0 \<and>
   snapshots_after (run_simulation default_config 8760 (take 5 one_ship_run)) = Some 0 \<and>
   processed_after (run_simulation default_config 8760 one_ship_run) = Some 1 \<and>
   snapshots_after (run_simulation default_config 8760 one_ship_run) = Some 1"
  by (simp add: one_ship_run_def processed_after_def snapshots_after_def final_state_def
      run_defs ship_defs resource_defs Let_def)


section \<open>Who holds what\<close>

lemma member_trigger [simp]: "res_wf r \<Longrightarrow> member (res_trigger_put t r) q = member r q"
  by (auto simp: member_def in_users_def in_queue_def res_trigger_put_def split: list.splits)

lemma in_users_trigger: "in_users r q \<Longrightarrow> in_users (res_trigger_put t r) q"
  by (auto simp: in_users_def res_trigger_put_def split: list.splits)

lemma wf_trigger [simp]: "res_wf r \<Longrightarrow> res_wf (res_trigger_put t r)"
  by (auto simp: res_wf_def res_trigger_put_def split: list.splits)

lemma member_request [simp]:
  "res_wf r \<Longrightarrow> \<not> member r p \<Longrightarrow> member (res_request t r p) q = (q = p \<or> member r q)"
  unfolding res_request_def
  apply (subst member_trigger)
  apply (auto simp: res_wf_def member_def in_users_def in_queue_def)
  done

lemma in_users_request: "in_users r q \<Longrightarrow> in_users (res_request t r p) q"
  unfolding res_request_def by (rule in_users_trigger) (simp add: in_users_def)

lemma wf_request [simp]: "res_wf r \<Longrightarrow> \<not> member r p \<Longrightarrow> res_wf (res_request t r p)"
  unfolding res_request_def
  by (rule wf_trigger) (auto simp: res_wf_def member_def in_users_def in_queue_def)

lemma in_users_release [simp]: "in_users (res_release r p) q = (in_users r q \<and> q \<noteq> p)"
  by (auto simp: in_users_def res_release_def)

lemma in_queue_release [simp]: "in_queue (res_release r p) q = in_queue r q"
  by (auto simp: in_queue_def res_release_def)

lemma wf_release [simp]: "res_wf r \<Longrightarrow> res_wf (res_release r p)"
  by (auto simp: res_wf_def res_release_def distinct_map_filter)

lemma wf_exclusive: "res_wf r \<Longrightarrow> in_users r q \<Longrightarrow> \<not> in_queue r q"
  by (auto simp: res_wf_def in_users_def in_queue_def)

lemma member_release:
  "res_wf r \<Longrightarrow> member (res_release r p) q = (member r q \<and> (q \<noteq> p \<or> in_queue r p))"
  by (auto simp: member_def dest: wf_exclusive)

lemma granted_in_users: "granted r p t \<Longrightarrow> in_users r p"
  by (force simp: granted_def in_users_def)

lemma others_kept_refl [simp]: "others_kept p p X"
  by (simp add: others_kept_def)

lemma others_kept_trans:
  "others_kept p p' X \<Longrightarrow> others_kept p' p'' X \<Longrightarrow> others_kept p p'' X"
  by (simp add: others_kept_def)

lemma resources_set_resource [simp]:
  "resources (set_resource p r v) r' = (if r' = r then v else resources p r')"
  by (simp add: set_resource_def)

lemma resources_set_storage [simp]: "resources (set_storage p pl c) = resources p"
  by (simp add: set_storage_def)

lemma kept_request:
  "res_wf (resources p r) \<Longrightarrow> \<not> member (resources p r) q0 \<Longrightarrow> q0 \<in> X \<Longrightarrow>
   others_kept p (set_resource p r (res_request t (resources p r) q0)) X"
  by (auto simp: others_kept_def in_users_request)

lemma kept_release:
  "res_wf (resources p r) \<Longrightarrow> q0 \<in> X \<Longrightarrow>
   others_kept p (set_resource p r (res_release (resources p r) q0)) X"
  by (auto simp: others_kept_def member_release)

lemma kept_trigger:
  "res_wf (resources p r) \<Longrightarrow>
   others_kept p (set_resource p r (res_trigger_put t (resources p r))) X"
  by (auto simp: others_kept_def in_users_trigger)

lemma kept_storage [simp]: "others_kept p (set_storage p pl c) X"
  by (simp add: others_kept_def)

lemma ship_inv_kept:
  "others_kept p p' X \<Longrightarrow> ShipProc j \<notin> X \<Longrightarrow> ship_inv p j sh \<Longrightarrow> ship_inv p' j sh"
  by (auto simp: ship_inv_def others_kept_def Let_def split: ship_pc.splits if_splits)

lemma sim_inv_ship_update:
  assumes inv: "sim_inv s"
    and kept: "others_kept (port s) (port s') {ShipProc i}"
    and wf: "\<forall>r. res_wf (resources (port s') r)"
    and own: "ship_inv (port s') i sh'"
    and ships: "ships s' = (ships s)(i \<mapsto> sh')"
    and known: "i < gen_ship_id s"
    and rest: "gen_ship_id s' = gen_ship_id s" "rail_pc s' = rail_pc s"
  shows "sim_inv s'"
  unfolding sim_inv_def
proof (intro conjI allI impI)
  fix r show "res_wf (resources (port s') r)" using wf by simp
next
  fix j sh assume "ships s' j = Some sh"
  then show "ship_inv (port s') j sh"
    using inv own kept ships
    by (cases "j = i") (auto simp: sim_inv_def intro: ship_inv_kept)
next
  fix j r assume "ships s' j = None"
  then have "j \<noteq> i" "ships s j = None" using ships by (auto split: if_splits)
  then show "\<not> member (resources (port s') r) (ShipProc j)"
    using inv kept by (auto simp: sim_inv_def others_kept_def)
next
  fix j assume "gen_ship_id s' \<le> j"
  then show "ships s' j = None" using inv ships known rest by (auto simp: sim_inv_def)
next
  show "rail_inv s'"
    using inv kept rest
    by (auto simp: sim_inv_def rail_inv_def others_kept_def Let_def split: rail_pc.splits)
next
  fix r assume "r \<noteq> Railway"
  then show "\<not> member (resources (port s') r) RailProc"
    using inv kept by (auto simp: sim_inv_def others_kept_def)
qed

lemma sim_inv_now [simp]: "sim_inv (s\<lparr>now := t\<rparr>) = sim_inv s"
  by (simp add: sim_inv_def rail_inv_def)

lemma inv_known: "sim_inv s \<Longrightarrow> ships s i = Some sh \<Longrightarrow> i < gen_ship_id s"
  by (force simp: sim_inv_def not_le [symmetric])

lemma inv_ship: "sim_inv s \<Longrightarrow> ships s i = Some sh \<Longrightarrow> ship_inv (port s) i sh"
  by (simp add: sim_inv_def)

lemma inv_wf: "sim_inv s \<Longrightarrow> res_wf (resources (port s) r)"
  by (simp add: sim_inv_def)

lemma berth_not_cranes [simp]: "get_berth ct \<noteq> Cranes" "Cranes \<noteq> get_berth ct"
  by (simp_all add: get_berth_def)

lemma ship_start_inv:
  assumes "sim_inv s" "ships s i = Some sh" "ship_pc sh = Created" "ship_start t i sh s = Inr s'"
  shows "sim_inv s'"
proof -
  note si = inv_ship [OF assms(1,2)] and wf = inv_wf [OF assms(1)]
  have nm: "\<not> member (resources (port s) (get_berth (cargo sh))) (ShipProc i)"
    using si assms(3) by (simp add: ship_inv_def Let_def)
  show ?thesis
  proof (rule sim_inv_ship_update [OF assms(1), where i = i
        and sh' = "sh\<lparr>arrival_time := t, ship_pc := WaitBerth\<rparr>"])
    show "others_kept (port s) (port s') {ShipProc i}"
      using assms(4) wf nm by (auto simp: ship_start_def put_ship_def Let_def intro!: kept_request)
    show "\<forall>r. res_wf (resources (port s') r)"
      using assms(4) wf nm by (auto simp: ship_start_def put_ship_def Let_def)
    show "ship_inv (port s') i (sh\<lparr>arrival_time := t, ship_pc := WaitBerth\<rparr>)"
      using assms(3,4) wf nm si by (auto simp: ship_start_def put_ship_def Let_def ship_inv_def)
    show "ships s' = (ships s)(i \<mapsto> sh\<lparr>arrival_time := t, ship_pc := WaitBerth\<rparr>)"
      using assms(4) by (auto simp: ship_start_def put_ship_def Let_def)
    show "i < gen_ship_id s" using assms(1,2) by (rule inv_known)
    show "gen_ship_id s' = gen_ship_id s" "rail_pc s' = rail_pc s"
      using assms(4) by (auto simp: ship_start_def put_ship_def Let_def)
  qed
qed

lemma ship_check_storage_inv:
  assumes "sim_inv s" "ships s i = Some sh0" "ship_check_storage cfg t i sh s = Inr s'"
    "cargo sh = cargo sh0" "ship_inv (port s) i (sh\<lparr>ship_pc := WaitPoll\<rparr>)"
  shows "sim_inv s'"
proof -
  note wf = inv_wf [OF assms(1)]
  obtain sh' where s': "s' = put_ship s i sh'" and pc: "ship_pc sh' = WaitPoll \<or> ship_pc sh' = WaitUnload"
    and cg: "cargo sh' = cargo sh"
    using assms(3) by (auto simp: ship_check_storage_def Let_def split: if_splits)
  show ?thesis
  proof (rule sim_inv_ship_update [OF assms(1), where i = i and sh' = sh'])
    show "others_kept (port s) (port s') {ShipProc i}" by (simp add: s' put_ship_def)
    show "\<forall>r. res_wf (resources (port s') r)" using wf by (simp add: s' put_ship_def)
    show "ship_inv (port s') i sh'"
      using assms(5) pc cg by (auto simp: s' put_ship_def ship_inv_def Let_def)
    show "ships s' = (ships s)(i \<mapsto> sh')" by (simp add: s' put_ship_def)
    show "i < gen_ship_id s" using assms(1,2) by (rule inv_known)
    show "gen_ship_id s' = gen_ship_id s" "rail_pc s' = rail_pc s"
      by (simp_all add: s' put_ship_def)
  qed
qed

lemma ship_berthed_inv:
  assumes "sim_inv s" "ships s i = Some sh" "ship_pc sh = WaitBerth"
    "granted (resources (port s) (get_berth (cargo sh))) (ShipProc i) t"
    "ship_berthed cfg t i sh s = Inr s'"
  shows "sim_inv s'"
proof -
  note si = inv_ship [OF assms(1,2)] and wf = inv_wf [OF assms(1)]
  have hb: "in_users (resources (port s) (get_berth (cargo sh))) (ShipProc i)"
    using assms(4) by (rule granted_in_users)
  have nc: "\<not> member (resources (port s) Cranes) (ShipProc i)"
    using si assms(3) by (simp add: ship_inv_def Let_def)
  show ?thesis
  proof (cases "cargo sh = Oil")
    case True
    then have "ship_check_storage cfg t i (sh\<lparr>berth_wait_time := t - arrival_time sh\<rparr>) s = Inr s'"
      using assms(5) by (simp add: ship_berthed_def Let_def)
    moreover have "ship_inv (port s) i
        (sh\<lparr>berth_wait_time := t - arrival_time sh, ship_pc := WaitPoll\<rparr>)"
      using hb nc True by (simp add: ship_inv_def Let_def)
    ultimately show ?thesis
      using ship_check_storage_inv [OF assms(1,2), of cfg t
          "sh\<lparr>berth_wait_time := t - arrival_time sh\<rparr>" s'] by simp
  next
    case False
    let ?sh' = "sh\<lparr>berth_wait_time := t - arrival_time sh, ship_pc := WaitCrane\<rparr>"
    have s': "s' = put_ship (s\<lparr>port := set_resource (port s) Cranes
                 (res_request t (resources (port s) Cranes) (ShipProc i))\<rparr>) i ?sh'"
      using assms(5) False by (simp add: ship_berthed_def Let_def)
    show ?thesis
    proof (rule sim_inv_ship_update [OF assms(1), where i = i and sh' = ?sh'])
      show "others_kept (port s) (port s') {ShipProc i}"
        using wf nc by (auto simp: s' put_ship_def intro!: kept_request)
      show "\<forall>r. res_wf (resources (port s') r)"
        using wf nc by (auto simp: s' put_ship_def)
      show "ship_inv (port s') i ?sh'"
        using wf nc hb False by (auto simp: s' put_ship_def ship_inv_def Let_def)
      show "ships s' = (ships s)(i \<mapsto> ?sh')" by (simp add: s' put_ship_def)
      show "i < gen_ship_id s" using assms(1,2) by (rule inv_known)
      show "gen_ship_id s' = gen_ship_id s" "rail_pc s' = rail_pc s"
        by (simp_all add: s' put_ship_def)
    qed
  qed
qed

lemma ship_put_inv:
  assumes "sim_inv s" "ships s i = Some sh" "ship_pc sh = WaitUnload \<or> ship_pc sh = PutPending"
    "ship_put t i sh s = Inr s'"
  shows "sim_inv s'"
proof -
  note si = inv_ship [OF assms(1,2)] and wf = inv_wf [OF assms(1)]
  obtain sh' where sh': "ships s' = (ships s)(i \<mapsto> sh')"
    and p': "resources (port s') = resources (port s)"
    and pc: "ship_pc sh' = PutTriggered \<or> ship_pc sh' = PutPending"
    and cg: "cargo sh' = cargo sh"
    and rest: "gen_ship_id s' = gen_ship_id s" "rail_pc s' = rail_pc s"
    using assms(4)
    by (auto simp: ship_put_def Let_def put_ship_def split: sum.splits prod.splits if_splits)
  show ?thesis
  proof (rule sim_inv_ship_update [OF assms(1), where i = i and sh' = sh'])
    show "others_kept (port s) (port s') {ShipProc i}"
      by (simp add: others_kept_def p')
    show "\<forall>r. res_wf (resources (port s') r)" using wf by (simp add: p')
    show "ship_inv (port s') i sh'"
      using si assms(3) pc cg by (auto simp: ship_inv_def Let_def p')
    show "ships s' = (ships s)(i \<mapsto> sh')" by (rule sh')
    show "i < gen_ship_id s" using assms(1,2) by (rule inv_known)
    show "gen_ship_id s' = gen_ship_id s" "rail_pc s' = rail_pc s"
      by (rule rest)+
  qed
qed

lemma ship_depart_inv:
  assumes "sim_inv s" "ships s i = Some sh" "ship_pc sh = PutTriggered"
    "ship_depart t i sh s = Inr s'"
  shows "sim_inv s'"
proof -
  note si = inv_ship [OF assms(1,2)] and wf = inv_wf [OF assms(1)]
  let ?q = "ShipProc i"
  let ?b = "get_berth (cargo sh)"
  define p1 where "p1 = (if cargo sh \<noteq> Oil
                then set_resource (port s) Cranes
                       (res_release (resources (port s) Cranes) ?q)
                else port s)"
  define p2 where "p2 = set_resource p1 ?b (res_release (resources p1 ?b) ?q)"
  have hb: "in_users (resources (port s) ?b) ?q"
    and hc: "if cargo sh = Oil then \<not> member (resources (port s) Cranes) ?q
             else in_users (resources (port s) Cranes) ?q"
    using si assms(3) by (auto simp: ship_inv_def Let_def)
  have wf1: "\<forall>r. res_wf (resources p1 r)" using wf by (simp add: p1_def)
  have wf2: "\<forall>r. res_wf (resources p2 r)" using wf1 by (simp add: p2_def)
  have k1: "others_kept (port s) p1 {?q}"
    using wf by (auto simp: p1_def intro!: kept_release)
  have k2: "others_kept p1 p2 {?q}"
    using wf1 by (auto simp: p2_def intro!: kept_release)
  obtain m where s': "s' = put_ship (s\<lparr>port := p2, metrics := m\<rparr>) i (sh\<lparr>ship_pc := Finished\<rparr>)"
    using assms(4) by (auto simp: ship_depart_def Let_def p1_def p2_def)
  have qb: "\<not> in_queue (resources (port s) ?b) ?q"
    using wf_exclusive [OF wf hb] .
  have qc: "\<not> in_queue (resources (port s) Cranes) ?q"
    using hc wf_exclusive [OF wf, of Cranes ?q] by (auto simp: member_def split: if_splits)
  have nb: "\<not> member (resources p2 ?b) ?q"
    using qb by (auto simp: p2_def p1_def member_def)
  have nc: "\<not> member (resources p2 Cranes) ?q"
    using qc hc by (auto simp: p2_def p1_def member_def split: if_splits)
  show ?thesis
  proof (rule sim_inv_ship_update [OF assms(1), where i = i and sh' = "sh\<lparr>ship_pc := Finished\<rparr>"])
    show "others_kept (port s) (port s') {ShipProc i}"
      using others_kept_trans [OF k1 k2] by (simp add: s' put_ship_def)
    show "\<forall>r. res_wf (resources (port s') r)" using wf2 by (simp add: s' put_ship_def)
    show "ship_inv (port s') i (sh\<lparr>ship_pc := Finished\<rparr>)"
      using nb nc by (simp add: s' put_ship_def ship_inv_def Let_def)
    show "ships s' = (ships s)(i \<mapsto> sh\<lparr>ship_pc := Finished\<rparr>)" by (simp add: s' put_ship_def)
    show "i < gen_ship_id s" using assms(1,2) by (rule inv_known)
    show "gen_ship_id s' = gen_ship_id s" "rail_pc s' = rail_pc s"
      by (simp_all add: s' put_ship_def)
  qed
qed

lemma ship_resume_inv:
  assumes "sim_inv s" "ship_resume cfg t i s = Some (Inr s')"
  shows "sim_inv s'"
proof -
  obtain sh where sh: "ships s i = Some sh"
    using assms(2) by (auto simp: ship_resume_def split: option.splits)
  note si = inv_ship [OF assms(1) sh]
  show ?thesis
  proof (cases "ship_pc sh")
    case Created
    then show ?thesis using assms sh
      by (auto simp: ship_resume_def split: if_splits intro: ship_start_inv)
  next
    case WaitBerth
    then show ?thesis using assms sh
      by (auto simp: ship_resume_def split: if_splits intro: ship_berthed_inv)
  next
    case WaitCrane
    then have "granted (resources (port s) Cranes) (ShipProc i) t"
      and cs: "ship_check_storage cfg t i sh s = Inr s'"
      using assms sh by (auto simp: ship_resume_def split: if_splits)
    then have "in_users (resources (port s) Cranes) (ShipProc i)" by (auto dest: granted_in_users)
    then have "ship_inv (port s) i (sh\<lparr>ship_pc := WaitPoll\<rparr>)"
      using si WaitCrane by (auto simp: ship_inv_def Let_def)
    then show ?thesis using ship_check_storage_inv [OF assms(1) sh cs] by simp
  next
    case WaitPoll
    then have cs: "ship_check_storage cfg t i sh s = Inr s'"
      using assms sh by (auto simp: ship_resume_def split: if_splits)
    have "ship_inv (port s) i (sh\<lparr>ship_pc := WaitPoll\<rparr>)"
      using si WaitPoll by (auto simp: ship_inv_def Let_def)
    then show ?thesis using ship_check_storage_inv [OF assms(1) sh cs] by simp
  next
    case WaitUnload
    then show ?thesis using assms sh
      by (auto simp: ship_resume_def split: if_splits intro: ship_put_inv)
  next
    case PutPending
    then show ?thesis using assms sh by (auto simp: ship_resume_def)
  next
    case PutTriggered
    then show ?thesis using assms sh
      by (auto simp: ship_resume_def split: if_splits intro: ship_depart_inv)
  next
    case Finished
    then show ?thesis using assms sh by (auto simp: ship_resume_def)
  qed
qed

lemma put_retry_inv:
  assumes "sim_inv s" "put_retry t i s = Some (Inr s')"
  shows "sim_inv s'"
  using assms
  by (auto simp: put_retry_def split: option.splits if_splits sum.splits intro: ship_put_inv)

lemma sim_inv_rail_update:
  assumes inv: "sim_inv s"
    and res: "\<forall>r. r \<noteq> Railway \<longrightarrow> resources (port s') r = resources (port s) r"
    and kept: "others_kept (port s) (port s') {RailProc}"
    and wf: "res_wf (resources (port s') Railway)"
    and own: "rail_inv s'"
    and rest: "ships s' = ships s" "gen_ship_id s' = gen_ship_id s"
  shows "sim_inv s'"
  unfolding sim_inv_def
proof (intro conjI allI impI)
  fix r show "res_wf (resources (port s') r)"
    using wf res inv by (cases "r = Railway") (auto simp: sim_inv_def)
next
  fix j sh assume "ships s' j = Some sh"
  then show "ship_inv (port s') j sh"
    using inv kept rest by (auto simp: sim_inv_def intro: ship_inv_kept)
next
  fix j r assume "ships s' j = None"
  then show "\<not> member (resources (port s') r) (ShipProc j)"
    using inv kept rest by (auto simp: sim_inv_def others_kept_def)
next
  fix j assume "gen_ship_id s' \<le> j"
  then show "ships s' j = None" using inv rest by (auto simp: sim_inv_def)
next
  show "rail_inv s'" by (rule own)
next
  fix r assume "r \<noteq> Railway"
  then show "\<not> member (resources (port s') r) RailProc"
    using inv res by (auto simp: sim_inv_def)
qed

lemma rail_get_local:
  "rail_get t pl a pc s = Inr s' \<Longrightarrow> pc \<notin> {RCreated, RWaitInterval, RWaitTrack} \<Longrightarrow>
   rail_local s s'"
  by (auto simp: rail_get_def rail_local_def split: sum.splits prod.splits if_splits)

lemma rail_load_local: "rail_load t s = Inr s' \<Longrightarrow> rail_local s s'"
  by (auto simp: rail_load_def rail_local_def)

lemma rail_local_upd [simp]:
  "rail_local (s\<lparr>rail_amount := a, rail_take := b\<rparr>) s' = rail_local s s'"
  by (simp add: rail_local_def)

lemma rail_take_oil_local: "rail_take_oil t a s = Inr s' \<Longrightarrow> rail_local s s'"
  by (auto simp: rail_take_oil_def Let_def split: if_splits
      dest!: rail_get_local rail_load_local)

lemma rail_take_general_local: "rail_take_general t a s = Inr s' \<Longrightarrow> rail_local s s'"
  by (auto simp: rail_take_general_def Let_def split: if_splits
      dest!: rail_get_local rail_take_oil_local)

lemma rail_take_grain_local: "rail_take_grain t a s = Inr s' \<Longrightarrow> rail_local s s'"
  by (auto simp: rail_take_grain_def Let_def split: if_splits
      dest!: rail_get_local rail_take_general_local)

lemma rail_dispatch_local: "rail_dispatch cfg t s = Inr s' \<Longrightarrow> rail_local s s'"
  by (auto simp: rail_dispatch_def Let_def split: if_splits
      dest!: rail_get_local rail_take_grain_local rail_load_local)

lemma rail_local_inv:
  assumes "sim_inv s" "rail_local s s'" "in_users (resources (port s) Railway) RailProc"
  shows "sim_inv s'"
proof (rule sim_inv_rail_update [OF assms(1)])
  show "\<forall>r. r \<noteq> Railway \<longrightarrow> resources (port s') r = resources (port s) r"
    using assms(2) by (simp add: rail_local_def)
  show "others_kept (port s) (port s') {RailProc}"
    using assms(2) by (simp add: rail_local_def others_kept_def)
  show "res_wf (resources (port s') Railway)"
    using assms(1,2) by (simp add: rail_local_def inv_wf)
  show "rail_inv s'"
    using assms(2,3) by (auto simp: rail_local_def rail_inv_def Let_def split: rail_pc.splits)
  show "ships s' = ships s" "gen_ship_id s' = gen_ship_id s"
    using assms(2) by (simp_all add: rail_local_def)
qed

lemma inv_rail: "sim_inv s \<Longrightarrow> rail_inv s"
  by (simp add: sim_inv_def)

lemma rail_sleep_inv:
  assumes "sim_inv s" "\<not> member (resources (port s) Railway) RailProc"
    "rail_sleep cfg t s = Inr s'"
  shows "sim_inv s'"
proof (rule sim_inv_rail_update [OF assms(1)])
  have s': "port s' = port s" "ships s' = ships s" "gen_ship_id s' = gen_ship_id s"
    "rail_pc s' = RWaitInterval"
    using assms(3) by (auto simp: rail_sleep_def Let_def split: if_splits)
  show "\<forall>r. r \<noteq> Railway \<longrightarrow> resources (port s') r = resources (port s) r"
    by (simp add: s')
  show "others_kept (port s) (port s') {RailProc}" by (simp add: s')
  show "res_wf (resources (port s') Railway)" using assms(1) by (simp add: s' inv_wf)
  show "rail_inv s'" using assms(2) by (simp add: rail_inv_def s')
  show "ships s' = ships s" "gen_ship_id s' = gen_ship_id s" by (simp_all add: s')
qed

lemma sim_inv_port_cong:
  "sim_inv s \<Longrightarrow> port s' = port s \<Longrightarrow> ships s' = ships s \<Longrightarrow>
   gen_ship_id s' = gen_ship_id s \<Longrightarrow> rail_pc s' = rail_pc s \<Longrightarrow> sim_inv s'"
  by (simp add: sim_inv_def rail_inv_def)

lemma rail_resume_inv:
  assumes "sim_inv s" "rail_resume cfg t s = Some (Inr s')"
  shows "sim_inv s'"
proof -
  note ri = inv_rail [OF assms(1)] and wf = inv_wf [OF assms(1)]
  show ?thesis
  proof (cases "rail_pc s")
    case RCreated
    then show ?thesis using assms ri
      by (auto simp: rail_resume_def rail_inv_def split: if_splits intro: rail_sleep_inv)
  next
    case RWaitInterval
    then have nm: "\<not> member (resources (port s) Railway) RailProc"
      using ri by (simp add: rail_inv_def)
    have s': "s' = s\<lparr>port := set_resource (port s) Railway
                      (res_request t (resources (port s) Railway) RailProc),
                 rail_pc := RWaitTrack\<rparr>"
      using assms(2) RWaitInterval by (auto simp: rail_resume_def rail_request_def split: if_splits)
    show ?thesis
    proof (rule sim_inv_rail_update [OF assms(1)])
      show "\<forall>r. r \<noteq> Railway \<longrightarrow> resources (port s') r = resources (port s) r"
        by (simp add: s')
      show "others_kept (port s) (port s') {RailProc}"
        using wf nm by (auto simp: s' intro!: kept_request)
      show "res_wf (resources (port s') Railway)" using wf nm by (simp add: s')
      show "rail_inv s'" using wf nm by (simp add: s' rail_inv_def)
      show "ships s' = ships s" "gen_ship_id s' = gen_ship_id s" by (simp_all add: s')
    qed
  next
    case RWaitTrack
    then show ?thesis using assms
      by (auto simp: rail_resume_def split: if_splits
          dest!: rail_dispatch_local granted_in_users intro: rail_local_inv)
  next
    case RWaitGetFull
    then show ?thesis using assms ri
      by (auto simp: rail_resume_def rail_inv_def split: if_splits
          dest!: rail_load_local intro: rail_local_inv)
  next
    case RWaitGetGrain
    then show ?thesis using assms ri
      by (auto simp: rail_resume_def rail_inv_def split: if_splits
          dest!: rail_take_general_local intro: rail_local_inv)
  next
    case RWaitGetGeneral
    then show ?thesis using assms ri
      by (auto simp: rail_resume_def rail_inv_def split: if_splits
          dest!: rail_take_oil_local intro: rail_local_inv)
  next
    case RWaitGetOil
    then show ?thesis using assms ri
      by (auto simp: rail_resume_def rail_inv_def split: if_splits
          dest!: rail_load_local intro: rail_local_inv)
  next
    case RWaitLoad
    then have hu: "in_users (resources (port s) Railway) RailProc"
      using ri by (simp add: rail_inv_def)
    let ?s1 = "s\<lparr>port := set_resource (port s) Railway
                    (res_release (resources (port s) Railway) RailProc)\<rparr>"
    have sl: "rail_sleep cfg t ?s1 = Inr s'"
      using assms(2) RWaitLoad by (auto simp: rail_resume_def rail_loaded_def split: if_splits)
    have nq: "\<not> in_queue (resources (port s) Railway) RailProc"
      using wf_exclusive [OF wf hu] .
    have s': "port s' = port ?s1" "ships s' = ships s" "gen_ship_id s' = gen_ship_id s"
      "rail_pc s' = RWaitInterval"
      using sl by (auto simp: rail_sleep_def Let_def split: if_splits)
    show ?thesis
    proof (rule sim_inv_rail_update [OF assms(1)])
      show "\<forall>r. r \<noteq> Railway \<longrightarrow> resources (port s') r = resources (port s) r"
        by (simp add: s')
      show "others_kept (port s) (port s') {RailProc}"
        using wf by (auto simp: s' intro!: kept_release)
      show "res_wf (resources (port s') Railway)" using wf by (simp add: s')
      show "rail_inv s'" using nq by (simp add: rail_inv_def s' member_def)
      show "ships s' = ships s" "gen_ship_id s' = gen_ship_id s" by (simp_all add: s')
    qed
  next
    case RGetPending
    then show ?thesis using assms by (simp add: rail_resume_def)
  qed
qed

lemma ship_arrive_inv:
  assumes "sim_inv s" "ship_arrive cfg t ct a d s = Some (Inr s')"
  shows "sim_inv s'"
proof -
  obtain sh where s': "port s' = port s" "ships s' = (ships s)(gen_ship_id s \<mapsto> sh)"
    "gen_ship_id s' = Suc (gen_ship_id s)" "rail_pc s' = rail_pc s" "ship_pc sh = Created"
    using assms(2) by (auto simp: ship_arrive_def put_ship_def Let_def split: if_splits)
  have none: "ships s (gen_ship_id s) = None" using assms(1) by (simp add: sim_inv_def)
  show ?thesis
    unfolding sim_inv_def
  proof (intro conjI allI impI)
    fix r show "res_wf (resources (port s') r)" using assms(1) by (simp add: s' inv_wf)
  next
    fix j sh' assume "ships s' j = Some sh'"
    then show "ship_inv (port s') j sh'"
      using assms(1) none s'
      by (cases "j = gen_ship_id s") (auto simp: sim_inv_def ship_inv_def Let_def)
  next
    fix j r assume "ships s' j = None"
    then show "\<not> member (resources (port s') r) (ShipProc j)"
      using assms(1) s' by (auto simp: sim_inv_def split: if_splits)
  next
    fix j assume "gen_ship_id s' \<le> j"
    then show "ships s' j = None" using assms(1) s' by (auto simp: sim_inv_def)
  next
    show "rail_inv s'" using assms(1) s' by (simp add: sim_inv_def rail_inv_def)
  next
    fix r assume "r \<noteq> Railway"
    then show "\<not> member (resources (port s') r) RailProc"
      using assms(1) s' by (auto simp: sim_inv_def)
  qed
qed

lemma res_trigger_inv:
  assumes "sim_inv s"
  shows "sim_inv (s\<lparr>port := set_resource (port s) r (res_trigger_put t (resources (port s) r))\<rparr>)"
    (is "sim_inv ?s'")
proof -
  note wf = inv_wf [OF assms]
  have k: "others_kept (port s) (port ?s') {}" using wf by (auto intro!: kept_trigger)
  show ?thesis
    unfolding sim_inv_def
  proof (intro conjI allI impI)
    fix r' show "res_wf (resources (port ?s') r')" using wf by simp
  next
    fix j sh assume "ships ?s' j = Some sh"
    then show "ship_inv (port ?s') j sh"
      using assms k by (auto simp: sim_inv_def intro: ship_inv_kept)
  next
    fix j r' assume "ships ?s' j = None"
    then show "\<not> member (resources (port ?s') r') (ShipProc j)"
      using assms wf by (auto simp: sim_inv_def)
  next
    fix j assume "gen_ship_id ?s' \<le> j"
    then show "ships ?s' j = None" using assms by (auto simp: sim_inv_def)
  next
    show "rail_inv ?s'"
      using assms wf
      by (auto simp: sim_inv_def rail_inv_def Let_def in_users_trigger split: rail_pc.splits)
  next
    fix r' assume "r' \<noteq> Railway"
    then show "\<not> member (resources (port ?s') r') RailProc"
      using assms wf by (auto simp: sim_inv_def)
  qed
qed

lemma fire_inv: "sim_inv s \<Longrightarrow> fire cfg s e = Some (Inr s') \<Longrightarrow> sim_inv s'"
  by (cases e)
     (auto intro: ship_arrive_inv ship_resume_inv put_retry_inv rail_resume_inv res_trigger_inv)

lemma step_inv: "sim_inv s \<Longrightarrow> step cfg s e = Some (Inr s') \<Longrightarrow> sim_inv s'"
  by (auto simp: step_def split: if_splits dest: fire_inv [rotated])

lemma run_events_inv:
  "run_events cfg h s es = Some (Inr s') \<Longrightarrow> sim_inv s \<Longrightarrow> sim_inv s'"
  by (induction es arbitrary: s)
     (auto split: if_splits option.splits sum.splits dest: step_inv [rotated])

lemma init_inv: "run_simulation_init cfg h = Inr s \<Longrightarrow> sim_inv s"
  by (auto simp: run_simulation_init_def Port_init_def simpy_Resource_def
      sim_inv_def rail_inv_def res_wf_def member_def in_users_def in_queue_def
      split: if_splits sum.splits resname.splits)

lemma reachable_inv: "run_simulation cfg h es = Some (Inr s) \<Longrightarrow> sim_inv s"
  by (auto simp: run_simulation_def split: sum.splits dest: init_inv run_events_inv)

text \<open>
  Claim C3, as the code has it. In every state that a run reaches, for every ship:
  from the moment the process continues after the grant of its berth until it departs, at
  each of its yields (the crane request, the wait for storage headroom, the unloading, the
  placing of the cargo into storage) the ship holds its berth, and it does not hold it
  before it has asked for it nor after it has departed; an oil ship never holds a crane; a
  ship with another cargo holds a crane at every yield after the grant of the crane,
  the wait for storage headroom and the placing of the cargo into storage included as well
  as the unloading, and does not hold one before it has a berth nor after it has departed.
\<close>

theorem berth_and_crane_held_until_departure:
  assumes "run_simulation cfg h es = Some (Inr s)" and "ships s i = Some sh"
  shows "(ship_pc sh \<in> {WaitCrane, WaitPoll, WaitUnload, PutPending, PutTriggered} \<longrightarrow>
            holds s (get_berth (cargo sh)) i) \<and>
         (ship_pc sh \<in> {Created, Finished} \<longrightarrow> \<not> holds s (get_berth (cargo sh)) i) \<and>
         (cargo sh \<noteq> Oil \<and> ship_pc sh \<in> {WaitPoll, WaitUnload, PutPending, PutTriggered} \<longrightarrow>
            holds s Cranes i) \<and>
         (cargo sh = Oil \<or> ship_pc sh \<in> {Created, WaitBerth, Finished} \<longrightarrow>
            \<not> holds s Cranes i)"
proof -
  have "sim_inv s" using assms(1) by (rule reachable_inv)
  then have "ship_inv (port s) i sh" using assms(2) by (rule inv_ship)
  then show ?thesis
    by (cases "ship_pc sh")
       (auto simp: ship_inv_def holds_def member_def Let_def split: if_splits)
qed

theorem berth_and_crane_held_until_departure_witness:
  "\<exists>s sh. run_simulation default_config 8760 (take 5 one_ship_run) = Some (Inr s) \<and>
     ships s 0 = Some sh \<and> ship_pc sh = PutTriggered \<and> cargo sh = General \<and>
     holds s DryBerths 0 \<and> holds s Cranes 0"
proof -
  from one_ship_before_departure obtain s sh where
    s: "run_simulation default_config 8760 (take 5 one_ship_run) = Some (Inr s)"
    and sh: "ships s 0 = Some sh" "ship_pc sh = PutTriggered" "cargo sh = General" by blast
  from berth_and_crane_held_until_departure [OF s sh(1)] sh
  have "holds s DryBerths 0" "holds s Cranes 0" by (simp_all add: get_berth_def)
  with s sh show ?thesis by blast
qed

text \<open>
  Claim C3 as stated fails for the crane. The general-cargo ship alone in the port is at
  \<open>yield storage.put(cargo_amount)\<close>, placing its cargo into storage, after its unloading
  has ended at hour 50, and it holds a crane there; it holds none once it has departed.
\<close>

theorem crane_held_while_placing_cargo:
  "ship_pc_after (run_simulation default_config 8760 (take 4 one_ship_run)) 0 =
     Some WaitUnload \<and>
   ship_pc_after (run_simulation default_config 8760 (take 5 one_ship_run)) 0 =
     Some PutTriggered \<and>
   holds_after (run_simulation default_config 8760 (take 5 one_ship_run)) Cranes 0 \<and>
   ship_pc_after (run_simulation default_config 8760 one_ship_run) 0 = Some Finished \<and>
   holds_after (run_simulation default_config 8760 one_ship_run) Cranes 0 = False"
  by (simp add: one_ship_run_def obs_defs run_defs ship_defs resource_defs Let_def)


end
